theory Spec2Isabelle
  imports Main "HOL-Library.Sublist" "HOL-Library.AList"
begin

section \<open>Strings and lists as the source's runtime has them\<close>

text \<open>
  Strings are lists of characters. The string operations of the runtime that the source
  calls are written out here: \<open>split\<close> on a one-character separator, \<open>join\<close>, the
  decimal rendering of a non-negative integer (template literals, \<open>String(n)\<close>).
\<close>

fun split_char :: "char \<Rightarrow> string \<Rightarrow> string list" where
  "split_char c [] = [[]]"
| "split_char c (x # xs) =
     (if x = c then [] # split_char c xs
      else (case split_char c xs of
              w # ws \<Rightarrow> (x # w) # ws
            | [] \<Rightarrow> [[x]]))"

fun join :: "string \<Rightarrow> string list \<Rightarrow> string" where
  "join sep [] = []"
| "join sep [w] = w"
| "join sep (w # v # ws) = w @ sep @ join sep (v # ws)"

function show_nat :: "nat \<Rightarrow> string" where
  "show_nat n =
     (if n < 10 then [''0123456789'' ! n]
      else show_nat (n div 10) @ [''0123456789'' ! (n mod 10)])"
  by pat_completeness auto
termination
  by (relation "measure id") auto

declare show_nat.simps [simp del]

definition show_int :: "int \<Rightarrow> string" where
  "show_int i = (if i < 0 then ''-'' @ show_nat (nat (- i)) else show_nat (nat i))"

definition is_space :: "char \<Rightarrow> bool" where
  "is_space c \<longleftrightarrow> c \<in> set [CHR '' '', CHR 0x09, CHR 0x0A, CHR 0x0B, CHR 0x0C, CHR 0x0D, CHR 0xA0]"

definition trim :: "string \<Rightarrow> string" where
  "trim s = rev (dropWhile is_space (rev (dropWhile is_space s)))"

text \<open>
  A value of type \<open>number\<close> that the source computes with: an integer or \<open>NaN\<close>
  (what \<open>parseInt\<close> gives for a text without digits). Fractions and the rounding of
  doubles above \<open>2^53\<close> are outside the model.
\<close>

datatype number = NaN | Num int

fun num_truthy :: "number \<Rightarrow> bool" where
  "num_truthy NaN = False"
| "num_truthy (Num n) = (n \<noteq> 0)"

text \<open>\<open>x || d\<close> for an optional number \<open>x\<close> and an integer default \<open>d\<close>.\<close>

fun num_or :: "number option \<Rightarrow> int \<Rightarrow> int" where
  "num_or None d = d"
| "num_or (Some NaN) d = d"
| "num_or (Some (Num n)) d = (if n = 0 then d else n)"

text \<open>
  \<open>xs.slice(0, end)\<close>: a \<open>NaN\<close> end counts as 0, a negative end counts from the end
  of the array.
\<close>

fun js_slice0 :: "'a list \<Rightarrow> number \<Rightarrow> 'a list" where
  "js_slice0 xs NaN = []"
| "js_slice0 xs (Num n) =
     (if n < 0 then take (nat (int (length xs) + n)) xs else take (nat n) xs)"

section \<open>Values received as JSON\<close>

text \<open>
  What \<open>JSON.parse\<close> and \<open>response.json()\<close> deliver, and \<open>undefined\<close>. Numbers are
  integers or \<open>NaN\<close> (which no JSON text yields). An object is the list of its own
  properties in order; \<open>JSON.parse\<close> keeps one value for each key.
\<close>

datatype jsval =
    JUndefined
  | JNull
  | JBool bool
  | JNum number
  | JStr string
  | JArr "jsval list"
  | JObj "(string \<times> jsval) list"

fun truthy :: "jsval \<Rightarrow> bool" where
  "truthy JUndefined = False"
| "truthy JNull = False"
| "truthy (JBool b) = b"
| "truthy (JNum n) = num_truthy n"
| "truthy (JStr s) = (s \<noteq> [])"
| "truthy (JArr xs) = True"
| "truthy (JObj kvs) = True"

text \<open>
  Reading a property \<open>v.k\<close>. \<open>None\<close> is the \<open>TypeError\<close> of reading from \<open>null\<close> or
  \<open>undefined\<close>. Beside own properties only \<open>length\<close> of strings and arrays is
  modelled; no other name the source reads is inherited from a prototype.
\<close>

fun property :: "jsval \<Rightarrow> string \<Rightarrow> jsval option" where
  "property JUndefined k = None"
| "property JNull k = None"
| "property (JObj kvs) k = Some (case map_of kvs k of Some v \<Rightarrow> v | None \<Rightarrow> JUndefined)"
| "property (JStr s) k = Some (if k = ''length'' then JNum (Num (int (length s))) else JUndefined)"
| "property (JArr xs) k = Some (if k = ''length'' then JNum (Num (int (length xs))) else JUndefined)"
| "property v k = Some JUndefined"

text \<open>
  \<open>String(v)\<close>, template interpolation and \<open>v.toString()\<close> on a value that is not
  \<open>null\<close> or \<open>undefined\<close>. \<open>None\<close> is the \<open>TypeError\<close> raised for an object whose own
  property \<open>toString\<close> hides the inherited method (a JSON value is never callable).
  \<open>Array.prototype.join\<close> renders \<open>null\<close> and \<open>undefined\<close> elements as the empty
  string. An integer is printed with all its digits, as the runtime does for the
  integers a double holds exactly (up to \<open>2^53\<close> in magnitude).
\<close>

fun ToString :: "jsval \<Rightarrow> string option"
  and joinElements :: "jsval list \<Rightarrow> string list option" where
  "ToString JUndefined = Some ''undefined''"
| "ToString JNull = Some ''null''"
| "ToString (JBool b) = Some (if b then ''true'' else ''false'')"
| "ToString (JNum NaN) = Some ''NaN''"
| "ToString (JNum (Num n)) = Some (show_int n)"
| "ToString (JStr s) = Some s"
| "ToString (JArr xs) = map_option (join '','') (joinElements xs)"
| "ToString (JObj kvs) =
     (if ''toString'' \<in> set (map fst kvs) then None else Some ''[object Object]'')"
| "joinElements [] = Some []"
| "joinElements (x # xs) =
     (case (if x = JNull \<or> x = JUndefined then Some [] else ToString x) of
        None \<Rightarrow> None
      | Some s \<Rightarrow> map_option ((#) s) (joinElements xs))"

definition toString_method :: "jsval \<Rightarrow> string option" where
  "toString_method v = (if v = JNull \<or> v = JUndefined then None else ToString v)"

text \<open>\<open>a || b\<close> on values.\<close>

definition js_or :: "jsval \<Rightarrow> jsval \<Rightarrow> jsval" where
  "js_or a b = (if truthy a then a else b)"

text \<open>\<open>s.replace(pat, rep)\<close> for a text pattern: the first occurrence is replaced.\<close>

fun replace_first :: "string \<Rightarrow> string \<Rightarrow> string \<Rightarrow> string" where
  "replace_first pat rep [] = (if pat = [] then rep else [])"
| "replace_first pat rep (c # cs) =
     (if prefix pat (c # cs) then rep @ drop (length pat) (c # cs)
      else c # replace_first pat rep cs)"

section \<open>The API client (src/lib/api/client.ts)\<close>

text \<open>
  The fields of \<open>CognitorApiClient\<close>. \<open>rateLimitTracker\<close> is the \<open>Map<string, number>\<close>
  from an endpoint to the time that \<open>checkRateLimit\<close> recorded for it last.
\<close>

record CognitorApiClient =
  baseUrl :: string
  siteId :: string
  apiKey :: "string option"
  rateLimitTracker :: "string \<rightharpoonup> int"

record NextFetchRequestConfig =
  revalidate :: int
  next_tags :: "string list"

record RequestOptions =
  opt_method :: "string option"
  opt_headers :: "(string \<times> string) list option"
  opt_body :: jsval
  opt_cache :: "string option"
  opt_next :: "NextFetchRequestConfig option"

text \<open>
  The body of an outgoing request: a text given as such, or \<open>JSON.stringify\<close> of a
  value, kept as that value.
\<close>

datatype body_text = Text string | Stringified jsval

record RequestInit =
  init_method :: string
  init_headers :: "(string \<times> string) list"
  init_cache :: string
  init_next :: "NextFetchRequestConfig option"
  init_body :: "body_text option"

text \<open>
  What the code can catch that is not a \<open>CognitorApiError\<close>: a \<open>TypeError\<close> raised by
  the runtime inside the modelled code, an \<open>Error\<close> with its message raised by the
  platform (\<open>fetch\<close> rejecting, \<open>response.json()\<close> failing), or a thrown value that is
  no \<open>Error\<close>.
\<close>

datatype thrown = TypeError | Failure string | NonError

datatype error_message = Message string | TypeError_message

record CognitorApiError =
  statusCode :: int
  code :: jsval
  message :: error_message
  details :: jsval

datatype error = Thrown thrown | ApiError CognitorApiError

record http_response =
  ok :: bool
  status :: int
  statusText :: string
  json :: "thrown + jsval"

datatype fetch_result = Rejected thrown | Responded http_response

text \<open>
  The platform the code runs on: \<open>fetch\<close>, the serialisation of \<open>URLSearchParams\<close>,
  \<open>Math.random().toString()\<close> (for the item at a given index), \<open>toLowerCase\<close>, and
  whether a text converted to a number is greater than 0. The properties below hold
  for every platform.
\<close>

record platform =
  fetch :: "string \<Rightarrow> RequestInit \<Rightarrow> fetch_result"
  searchParams_toString :: "(string \<times> string) list \<Rightarrow> string"
  random_toString :: "nat \<Rightarrow> string"
  toLowerCase :: "string \<Rightarrow> string"
  string_positive :: "string \<Rightarrow> bool"

text \<open>
  What a call leaves behind: the client after it, the \<open>fetch\<close> calls it issued in
  order, and its result (\<open>Inl\<close> for a thrown error where the call can throw).
\<close>

record 'a effect =
  client :: CognitorApiClient
  fetches :: "(string \<times> RequestInit) list"
  outcome :: 'a

text \<open>
  \<open>checkRateLimit\<close> with \<open>now = Date.now()\<close>. \<open>get(endpoint) || 0\<close> is 0 for a missing
  entry. The warning goes to the console only; both branches return normally.
\<close>

definition checkRateLimit :: "int \<Rightarrow> string \<Rightarrow> CognitorApiClient \<Rightarrow> CognitorApiClient" where
  "checkRateLimit now endpoint c =
     (let lastRequest = (case rateLimitTracker c endpoint of Some t \<Rightarrow> t | None \<Rightarrow> 0);
          timeDiff = now - lastRequest
      in if timeDiff < 1000 then c
         else c\<lparr>rateLimitTracker := (rateLimitTracker c)(endpoint \<mapsto> now)\<rparr>)"

definition buildUrl :: "CognitorApiClient \<Rightarrow> string \<Rightarrow> string" where
  "buildUrl c endpoint =
     (let cleanEndpoint = (if prefix ''/'' endpoint then drop 1 endpoint else endpoint) in
      if prefix ''search/sites/'' cleanEndpoint then baseUrl c @ ''/'' @ cleanEndpoint
      else if prefix ''search/'' cleanEndpoint then
        (let searchPath = replace_first ''search/'' [] cleanEndpoint in
         baseUrl c @ ''/search/sites/'' @ siteId c @ ''/'' @ searchPath)
      else if prefix ''public/'' cleanEndpoint then baseUrl c @ ''/'' @ cleanEndpoint
      else baseUrl c @ ''/public/'' @ siteId c @ ''/'' @ cleanEndpoint)"

text \<open>
  \<open>getHeaders\<close>: the object literal with the custom headers spread over the two
  defaults, then \<open>Authorization\<close> when the key is a non-empty string. Assigning an
  existing key keeps its place, a new key goes last (header names are not array
  indices, which the runtime would list first).
\<close>

definition getHeaders :: "CognitorApiClient \<Rightarrow> (string \<times> string) list \<Rightarrow> (string \<times> string) list" where
  "getHeaders c customHeaders =
     (let headers = fold (\<lambda>(k, v). AList.update k v) customHeaders
                      [(''Content-Type'', ''application/json''),
                       (''Accept'', ''application/json'')]
      in (case apiKey c of
            Some key \<Rightarrow>
              if key \<noteq> [] then AList.update ''Authorization'' (''Bearer '' @ key) headers
              else headers
          | None \<Rightarrow> headers))"

text \<open>The \<open>requestInit\<close> object that \<open>request\<close> builds from its options.\<close>

definition requestInit :: "CognitorApiClient \<Rightarrow> RequestOptions \<Rightarrow> RequestInit" where
  "requestInit c options =
     (let method = (case opt_method options of Some m \<Rightarrow> m | None \<Rightarrow> ''GET'');
          customHeaders = (case opt_headers options of Some h \<Rightarrow> h | None \<Rightarrow> []);
          body = opt_body options;
          cache = (case opt_cache options of Some k \<Rightarrow> k | None \<Rightarrow> ''default'')
      in \<lparr>init_method = method,
          init_headers = getHeaders c customHeaders,
          init_cache = cache,
          init_next = opt_next options,
          init_body =
            (if truthy body \<and> method \<noteq> ''GET''
             then Some (case body of JStr s \<Rightarrow> Text s | _ \<Rightarrow> Stringified body)
             else None)\<rparr>)"

text \<open>The \<open>catch\<close> block of \<open>request\<close> for an error that is no \<open>CognitorApiError\<close>.\<close>

definition network_error :: "thrown \<Rightarrow> CognitorApiError" where
  "network_error e =
     \<lparr>statusCode = 0, code = JStr ''NETWORK_ERROR'',
      message = (case e of
                   TypeError \<Rightarrow> TypeError_message
                 | Failure m \<Rightarrow> Message m
                 | NonError \<Rightarrow> Message ''Unknown network error''),
      details = JUndefined\<rparr>"

text \<open>
  The branch \<open>if (!response.ok)\<close>: it always throws. \<open>errorData\<close> is the parsed body,
  or the default object when the body does not parse. Reading \<open>errorData.code\<close> from
  \<open>null\<close> and turning a message object into the text of the \<open>Error\<close> can raise a
  \<open>TypeError\<close>, which the outer \<open>catch\<close> wraps as a network error.
\<close>

definition http_error :: "http_response \<Rightarrow> CognitorApiError" where
  "http_error response =
     (let http_text = ''HTTP '' @ show_int (status response) @ '': '' @ statusText response;
          errorData = (case json response of
                         Inr v \<Rightarrow> v
                       | Inl e \<Rightarrow> JObj [(''code'', JStr ''UNKNOWN_ERROR''),
                                         (''message'', JStr http_text),
                                         (''statusCode'', JNum (Num (status response)))])
      in (case (property errorData ''code'', property errorData ''message'',
                property errorData ''details'') of
            (Some c, Some m, Some d) \<Rightarrow>
              (case ToString (js_or m (JStr http_text)) of
                 Some text \<Rightarrow>
                   \<lparr>statusCode = status response, code = c, message = Message text,
                    details = d\<rparr>
               | None \<Rightarrow> network_error TypeError)
          | _ \<Rightarrow> network_error TypeError))"

text \<open>The transformation of the parsed body into the \<open>CognitorResponse\<close> format.\<close>

definition to_response :: "jsval \<Rightarrow> jsval" where
  "to_response rawData =
     (case rawData of
        JArr xs \<Rightarrow>
          (let n = JNum (Num (int (length xs))) in
           JObj [(''success'', JBool True),
                 (''data'', JObj [(''items'', rawData), (''total'', n),
                                  (''page'', JNum (Num 1)), (''limit'', n),
                                  (''pagination'',
                                     JObj [(''page'', JNum (Num 1)), (''limit'', n),
                                           (''total'', n), (''totalPages'', JNum (Num 1)),
                                           (''hasNext'', JBool False),
                                           (''hasPrev'', JBool False)])]),
                 (''message'', JStr ''Success'')])
      | JObj kvs \<Rightarrow>
          if ''data'' \<in> set (map fst kvs) then rawData
          else JObj [(''success'', JBool True), (''data'', rawData),
                     (''message'', JStr ''Success'')]
      | _ \<Rightarrow> JObj [(''success'', JBool True), (''data'', rawData),
                   (''message'', JStr ''Success'')])"

text \<open>
  \<open>request\<close>. One \<open>fetch\<close>, inside the \<open>try\<close>; every way out of the \<open>try\<close> but the
  returned response is a thrown \<open>CognitorApiError\<close>. Console output is not modelled.
\<close>

definition request ::
  "platform \<Rightarrow> int \<Rightarrow> CognitorApiClient \<Rightarrow> string \<Rightarrow> RequestOptions \<Rightarrow> (error + jsval) effect" where
  "request P now c0 endpoint options =
     (let c = checkRateLimit now endpoint c0;
          url = buildUrl c endpoint;
          init = requestInit c options
      in \<lparr>client = c, fetches = [(url, init)],
          outcome =
            (case fetch P url init of
               Rejected e \<Rightarrow> Inl (ApiError (network_error e))
             | Responded response \<Rightarrow>
                 if \<not> ok response then Inl (ApiError (http_error response))
                 else (case json response of
                         Inl e \<Rightarrow> Inl (ApiError (network_error e))
                       | Inr rawData \<Rightarrow> Inr (to_response rawData)))\<rparr>)"

text \<open>
  \<open>get\<close>: the parameters that are not \<open>null\<close> or \<open>undefined\<close> are appended as
  \<open>String(value)\<close>, which can raise before anything is requested.
\<close>

fun string_params :: "(string \<times> jsval) list \<Rightarrow> (string \<times> string) list option" where
  "string_params [] = Some []"
| "string_params ((key, v) # rest) =
     (if v = JUndefined \<or> v = JNull then string_params rest
      else (case ToString v of
              None \<Rightarrow> None
            | Some s \<Rightarrow> map_option ((#) (key, s)) (string_params rest)))"

definition get ::
  "platform \<Rightarrow> int \<Rightarrow> CognitorApiClient \<Rightarrow> string \<Rightarrow> (string \<times> jsval) list option
     \<Rightarrow> RequestOptions \<Rightarrow> (error + jsval) effect" where
  "get P now c endpoint params options =
     (case (case params of None \<Rightarrow> Some [] | Some ps \<Rightarrow> string_params ps) of
        None \<Rightarrow> \<lparr>client = c, fetches = [], outcome = Inl (Thrown TypeError)\<rparr>
      | Some searchParams \<Rightarrow>
          (let text = searchParams_toString P searchParams;
               url = (if params \<noteq> None \<and> text \<noteq> [] then endpoint @ ''?'' @ text
                      else endpoint)
           in request P now c url (options\<lparr>opt_method := Some ''GET''\<rparr>)))"

text \<open>Calls of \<open>request\<close> one after the other on one client, each at its own time.\<close>

fun request_sequence ::
  "platform \<Rightarrow> CognitorApiClient \<Rightarrow> (int \<times> string \<times> RequestOptions) list \<Rightarrow> CognitorApiClient" where
  "request_sequence P c [] = c"
| "request_sequence P c ((now, endpoint, options) # rest) =
     request_sequence P (client (request P now c endpoint options)) rest"

text \<open>
  Concrete inputs for the examples below: \<open>options = {}\<close>, a fresh client, and
  platforms whose \<open>fetch\<close> always rejects or always answers with a given response.
\<close>

definition no_options :: RequestOptions where
  "no_options = \<lparr>opt_method = None, opt_headers = None, opt_body = JUndefined,
                  opt_cache = None, opt_next = None\<rparr>"

definition fresh_client :: CognitorApiClient where
  "fresh_client = \<lparr>baseUrl = ''https://cms.example/api'', siteId = ''site1'',
                    apiKey = None, rateLimitTracker = Map.empty\<rparr>"

definition plain_params :: "(string \<times> string) list \<Rightarrow> string" where
  "plain_params ps = join ''&'' (map (\<lambda>(k, v). k @ ''='' @ v) ps)"

definition offline :: platform where
  "offline = \<lparr>fetch = (\<lambda>url init. Rejected (Failure ''fetch failed'')),
               searchParams_toString = plain_params,
               random_toString = (\<lambda>i. ''0.'' @ show_nat i),
               toLowerCase = (\<lambda>s. s),
               string_positive = (\<lambda>s. False)\<rparr>"

definition answering :: "http_response \<Rightarrow> platform" where
  "answering r = \<lparr>fetch = (\<lambda>url init. Responded r),
                   searchParams_toString = plain_params,
                   random_toString = (\<lambda>i. ''0.'' @ show_nat i),
                   toLowerCase = (\<lambda>s. s),
                   string_positive = (\<lambda>s. False)\<rparr>"

section \<open>Navigation (src/lib/api/navigation.ts)\<close>

text \<open>
  \<open>NavigationItem\<close> of src/lib/types/cognitor.ts. An optional field is an \<open>option\<close>;
  \<open>None\<close> stands for a field that is absent or \<open>undefined\<close>.
\<close>

datatype NavigationItem = NavigationItem
  (item_id: string)
  (title: string)
  (url: "string option")
  (slug: "string option")
  (external: "bool option")
  (target: "string option")
  (children: "NavigationItem list option")
  (order: int)
  (isActive: "bool option")

text \<open>
  \<open>formatSegmentTitle\<close>: \<open>segment.split('-')\<close>, each word with its first character
  upper-cased, joined by a blank. \<open>toUpperCase\<close> is the runtime's; it is a parameter.
\<close>

definition formatSegmentTitle :: "(string \<Rightarrow> string) \<Rightarrow> string \<Rightarrow> string" where
  "formatSegmentTitle toUpperCase segment =
     join '' '' (map (\<lambda>word. toUpperCase (take 1 word) @ drop 1 word)
                    (split_char CHR ''-'' segment))"

text \<open>
  The body of \<open>segments.forEach((segment, index) => ...)\<close> in
  \<open>generateFallbackBreadcrumbs\<close>: \<open>currentPath\<close> and \<open>index\<close> are the loop's state,
  \<open>n\<close> is \<open>segments.length\<close>; the items pushed are returned in order.
\<close>

fun pushSegments ::
  "(string \<Rightarrow> string) \<Rightarrow> nat \<Rightarrow> string \<Rightarrow> nat \<Rightarrow> string list \<Rightarrow> NavigationItem list" where
  "pushSegments toUpperCase n currentPath index [] = []"
| "pushSegments toUpperCase n currentPath index (segment # rest) =
     (let currentPath' = currentPath @ ''/'' @ segment in
      NavigationItem (''breadcrumb-'' @ show_nat index)
        (formatSegmentTitle toUpperCase segment)
        (Some currentPath') None None None None
        (int index + 1)
        (Some (int index = int n - 1))
      # pushSegments toUpperCase n currentPath' (Suc index) rest)"

definition generateFallbackBreadcrumbs ::
  "(string \<Rightarrow> string) \<Rightarrow> string \<Rightarrow> NavigationItem list" where
  "generateFallbackBreadcrumbs toUpperCase path =
     (let segments = filter (\<lambda>s. s \<noteq> []) (split_char CHR ''/'' path) in
      NavigationItem ''home'' ''Home'' (Some ''/'') None None None None 0
        (Some (length segments = 0))
      # pushSegments toUpperCase (length segments) [] 0 segments)"

text \<open>
  \<open>isNavigationItemActive\<close>. \<open>item.slug && ...\<close> and \<open>item.url && ...\<close> test
  truthiness: an absent or empty string fails the test.
\<close>

definition isNavigationItemActive :: "NavigationItem \<Rightarrow> string \<Rightarrow> bool" where
  "isNavigationItemActive item currentPath =
     (if url item = Some currentPath then True
      else if (case slug item of
                 Some s \<Rightarrow> s \<noteq> [] \<and> currentPath = ''/'' @ s
               | None \<Rightarrow> False) then True
      else if (case url item of
                 Some u \<Rightarrow> u \<noteq> [] \<and> prefix u currentPath \<and> u \<noteq> ''/''
               | None \<Rightarrow> False) then True
      else False)"

lemma children_size:
  "children x = Some cs \<Longrightarrow> size_list size cs < size x"
  by (cases x) simp

lemma member_children_size:
  "x \<in> set navigation \<Longrightarrow> children x = Some cs \<Longrightarrow>
   size_list size cs < size_list size navigation"
  using children_size [of x cs] size_list_estimation' [of x navigation "size x" size]
  by simp

text \<open>
  \<open>markActiveNavigation\<close>: \<open>navigation.map(item => ({...item, isActive: ..., children: ...}))\<close>.
  An array is truthy also when empty, so \<open>item.children ? ... : undefined\<close> recurses
  exactly when the field is present.
\<close>

function markActiveNavigation :: "NavigationItem list \<Rightarrow> string \<Rightarrow> NavigationItem list" where
  "markActiveNavigation navigation currentPath =
     map (\<lambda>item. NavigationItem (item_id item) (title item) (url item) (slug item)
            (external item) (target item)
            (case children item of
               Some cs \<Rightarrow> Some (markActiveNavigation cs currentPath)
             | None \<Rightarrow> None)
            (order item)
            (Some (isNavigationItemActive item currentPath)))
       navigation"
  by pat_completeness auto
termination
  by (relation "measure (\<lambda>(navigation, currentPath). size_list size navigation)")
     (auto simp: member_children_size)

declare markActiveNavigation.simps [simp del]

section \<open>Recent searches (src/lib/api/search.ts)\<close>

text \<open>
  The browser as \<open>getRecentSearches\<close> and \<open>saveRecentSearch\<close> see it: whether
  \<open>window\<close> is defined, the items of \<open>localStorage\<close>, and whether \<open>setItem\<close> raises
  (quota exceeded). A stored text is represented by what \<open>JSON.parse\<close> makes of it:
  the empty text, a text that \<open>JSON.parse\<close> rejects, or the value it yields;
  \<open>JSON.stringify\<close> of a JSON value is the text that parses to that value.
\<close>

datatype stored = Empty_text | Invalid_json | Json jsval

record browser =
  has_window :: bool
  quota_exceeded :: bool
  localStorage :: "string \<rightharpoonup> stored"

record SearchSuggestion =
  s_id :: "string option"
  s_text :: jsval
  s_type :: jsval
  s_url :: jsval

definition recent_key :: string where
  "recent_key = ''cognitor-recent-searches''"

definition recent_suggestion :: "jsval \<Rightarrow> SearchSuggestion" where
  "recent_suggestion term =
     \<lparr>s_id = None, s_text = term, s_type = JStr ''page'', s_url = JUndefined\<rparr>"

text \<open>
  \<open>getRecentSearches(limit = 5)\<close>. Every exception inside (the text does not parse,
  the parsed value has no \<open>slice\<close> or the slice has no \<open>map\<close>) is caught and gives
  the empty list.
\<close>

definition getRecentSearches :: "browser \<Rightarrow> number option \<Rightarrow> SearchSuggestion list" where
  "getRecentSearches env limit_arg =
     (let limit = (case limit_arg of None \<Rightarrow> Num 5 | Some l \<Rightarrow> l) in
      if \<not> has_window env then []
      else (case localStorage env recent_key of
              None \<Rightarrow> []
            | Some Empty_text \<Rightarrow> []
            | Some Invalid_json \<Rightarrow> []
            | Some (Json (JArr searches)) \<Rightarrow> map recent_suggestion (js_slice0 searches limit)
            | Some (Json _) \<Rightarrow> []))"

text \<open>
  The list \<open>saveRecentSearch\<close> starts from: \<open>[]\<close> when the item is missing or empty,
  the parsed array otherwise; \<open>None\<close> when \<open>JSON.parse\<close> or the following \<open>filter\<close>
  raises.
\<close>

definition existingRecentSearches :: "browser \<Rightarrow> jsval list option" where
  "existingRecentSearches env =
     (case localStorage env recent_key of
        None \<Rightarrow> Some []
      | Some Empty_text \<Rightarrow> Some []
      | Some Invalid_json \<Rightarrow> None
      | Some (Json (JArr xs)) \<Rightarrow> Some xs
      | Some (Json _) \<Rightarrow> None)"

definition saveRecentSearch :: "browser \<Rightarrow> string \<Rightarrow> browser" where
  "saveRecentSearch env term =
     (if \<not> has_window env then env
      else (case existingRecentSearches env of
              None \<Rightarrow> env
            | Some existing \<Rightarrow>
                (let maxRecentSearches = 10;
                     removed = filter (\<lambda>search. search \<noteq> JStr term) existing;
                     unshifted = JStr term # removed;
                     recentSearches = js_slice0 unshifted (Num maxRecentSearches)
                 in if quota_exceeded env then env
                    else env\<lparr>localStorage :=
                           (localStorage env)(recent_key \<mapsto> Json (JArr recentSearches))\<rparr>)))"

section \<open>The search service (src/lib/api/search.ts)\<close>

record SearchFilters =
  category :: "string option"
  tags :: "string list option"
  contentType :: "string option"
  dateRange :: "(string \<times> string) option"

text \<open>
  \<open>SearchQuery\<close>. The type says \<open>query: string\<close>; \<open>resolveContentReferences\<close> passes
  whatever \<open>data.search_term\<close> holds, so the field is a value.
\<close>

record SearchQuery =
  query :: jsval
  limit :: "number option"
  offset :: "number option"
  filters :: "SearchFilters option"

text \<open>
  \<open>CognitorResponse<T>\<close> and \<open>PaginatedData<T>\<close> as \<open>search\<close> and \<open>getSuggestions\<close>
  build them. The \<open>pagination\<close> object of a successful search (a copy of \<open>page\<close>,
  \<open>limit\<close>, \<open>total\<close>, \<open>totalPages\<close> and the two comparisons \<open>hasNext\<close>, \<open>hasPrev\<close>) is
  not kept; that evaluating the comparisons can raise is.
\<close>

record PaginatedData =
  items :: "jsval list"
  total :: jsval
  page :: jsval
  data_limit :: jsval

record 'a CognitorResponse =
  data :: 'a
  success :: bool
  message_text :: "string option"

text \<open>The \<open>queryParams\<close> object of \<open>search\<close>, in the order its properties are set.\<close>

definition search_params :: "SearchQuery \<Rightarrow> (string \<times> jsval) list" where
  "search_params q =
     [(''q'', query q)]
     @ (case limit q of
          Some l \<Rightarrow> if num_truthy l then [(''size'', JNum l)] else []
        | None \<Rightarrow> [])
     @ (case offset q of
          Some (Num off) \<Rightarrow>
            if off \<noteq> 0 then [(''page'', JNum (Num (off div num_or (limit q) 10 + 1)))] else []
        | _ \<Rightarrow> [])
     @ (case filters q of
          None \<Rightarrow> []
        | Some f \<Rightarrow>
            (case category f of
               Some cat \<Rightarrow> if cat \<noteq> [] then [(''category'', JStr cat)] else []
             | None \<Rightarrow> [])
            @ (case contentType f of
                 Some ct \<Rightarrow> if ct \<noteq> [] then [(''content_type'', JStr ct)] else []
               | None \<Rightarrow> [])
            @ (case tags f of
                 Some ts \<Rightarrow> if length ts > 0 then [(''tags'', JStr (join '','' ts))] else []
               | None \<Rightarrow> [])
            @ (case dateRange f of
                 Some (from, to) \<Rightarrow>
                   (if from \<noteq> [] then [(''date_from'', JStr from)] else [])
                   @ (if to \<noteq> [] then [(''date_to'', JStr to)] else [])
               | None \<Rightarrow> []))"

definition search_options :: RequestOptions where
  "search_options =
     \<lparr>opt_method = None, opt_headers = None, opt_body = JUndefined,
      opt_cache = Some ''default'',
      opt_next = Some \<lparr>revalidate = 300, next_tags = [''search'']\<rparr>\<rparr>"

text \<open>The API call of \<open>search\<close>, the first statement of its \<open>try\<close>.\<close>

definition search_call ::
  "platform \<Rightarrow> int \<Rightarrow> CognitorApiClient \<Rightarrow> SearchQuery \<Rightarrow> (error + jsval) effect" where
  "search_call P now c q =
     get P now c (''search/sites/'' @ siteId c) (Some (search_params q)) search_options"

definition field :: "(string \<times> jsval) list \<Rightarrow> string \<Rightarrow> jsval" where
  "field kvs k = (case map_of kvs k of Some v \<Rightarrow> v | None \<Rightarrow> JUndefined)"

text \<open>
  The arrow function of \<open>results.map\<close>. \<open>None\<close> is a \<open>TypeError\<close>: \<open>result.id\<close> is
  missing or \<open>null\<close> (always so when \<open>result\<close> is not an object), or \<open>keywords\<close> or
  \<open>content\<close> is a value without \<open>split\<close> where \<open>split\<close> is called.
\<close>

fun words_of :: "jsval \<Rightarrow> nat option" where
  "words_of (JStr s) = Some (length (split_char CHR '' '' s))"
| "words_of v = None"

fun transformResult :: "jsval \<Rightarrow> jsval option" where
  "transformResult (JObj result) =
     (let content = field result ''content'';
          keywords = field result ''keywords'';
          doc_type = field result ''doc_type''
      in case toString_method (field result ''id'') of
           None \<Rightarrow> None
         | Some id_text \<Rightarrow>
         (case (if truthy keywords
                then (case keywords of
                        JStr s \<Rightarrow> Some (map JStr (split_char CHR '','' s))
                      | _ \<Rightarrow> None)
                else Some []) of
            None \<Rightarrow> None
          | Some tag_list \<Rightarrow>
          (case (if truthy content then words_of content else Some 0) of
             None \<Rightarrow> None
           | Some wordCount \<Rightarrow>
           (case (if content = JNull \<or> content = JUndefined then Some 0
                  else words_of content) of
              None \<Rightarrow> None
            | Some n \<Rightarrow>
                Some (JObj
                  [(''id'', JStr id_text),
                   (''type'', if doc_type = JStr ''content_element'' then JStr ''page''
                              else doc_type),
                   (''title'', field result ''title''),
                   (''excerpt'', js_or (js_or content (field result ''description'')) (JStr [])),
                   (''url'', js_or (field result ''url'') (JStr ''#'')),
                   (''score'', field result ''score''),
                   (''publishedAt'', field result ''created_at''),
                   (''category'', JUndefined),
                   (''tags'', JArr tag_list),
                   (''metadata'',
                      JObj [(''contentType'', doc_type),
                            (''wordCount'', JNum (Num (int wordCount))),
                            (''readTime'', JNum (Num (max 1 ((int n + 199) div 200))))]),
                   (''highlight'', field result ''highlight'')])))))"
| "transformResult v = None"

text \<open>The two fallback returns of \<open>search\<close>; they differ in the message.\<close>

definition search_fallback :: "SearchQuery \<Rightarrow> string \<Rightarrow> PaginatedData CognitorResponse" where
  "search_fallback q text =
     \<lparr>data = \<lparr>items = [], total = JNum (Num 0), page = JNum (Num 1),
              data_limit = JNum (Num (num_or (limit q) 10))\<rparr>,
      success = False,
      message_text = Some text\<rparr>"

text \<open>
  The branch \<open>if (response.success && response.data)\<close> of \<open>search\<close> on the truthy
  \<open>response.data\<close>; \<open>None\<close> when it raises: \<open>results\<close> is no array, an element does
  not transform, or one of \<open>page\<close>, \<open>total_pages\<close>, \<open>total\<close> does not convert to a
  primitive for the comparisons and the message.
\<close>

definition search_success :: "jsval \<Rightarrow> PaginatedData CognitorResponse option" where
  "search_success d =
     (case (property d ''results'', property d ''total'', property d ''page'',
            property d ''size'', property d ''total_pages'') of
        (Some (JArr results), Some total_v, Some page_v, Some size_v, Some total_pages) \<Rightarrow>
          (case (those (map transformResult results), ToString page_v,
                 ToString total_pages, ToString total_v) of
             (Some transformedResults, Some _, Some _, Some total_text) \<Rightarrow>
               Some \<lparr>data = \<lparr>items = transformedResults, total = total_v, page = page_v,
                             data_limit = size_v\<rparr>,
                     success = True,
                     message_text = Some (''Found '' @ total_text @ '' results'')\<rparr>
           | _ \<Rightarrow> None)
      | _ \<Rightarrow> None)"

definition response_success :: "jsval \<Rightarrow> bool" where
  "response_success response =
     (case property response ''success'' of Some s \<Rightarrow> truthy s | None \<Rightarrow> False)"

definition response_data :: "jsval \<Rightarrow> jsval" where
  "response_data response =
     (case property response ''data'' of Some d \<Rightarrow> d | None \<Rightarrow> JUndefined)"

text \<open>
  \<open>search\<close>. It has no way out but a returned response: whatever is thrown inside the
  \<open>try\<close> ends in the \<open>catch\<close>, and nothing before the \<open>try\<close> can raise.
\<close>

definition search ::
  "platform \<Rightarrow> int \<Rightarrow> CognitorApiClient \<Rightarrow> SearchQuery
     \<Rightarrow> (PaginatedData CognitorResponse) effect" where
  "search P now c q =
     (let r = search_call P now c q in
      \<lparr>client = client r, fetches = fetches r,
       outcome =
         (case outcome r of
            Inl e \<Rightarrow> search_fallback q ''Search failed''
          | Inr response \<Rightarrow>
              if response_success response \<and> truthy (response_data response)
              then (case search_success (response_data response) of
                      Some found \<Rightarrow> found
                    | None \<Rightarrow> search_fallback q ''Search failed'')
              else search_fallback q ''No results found'')\<rparr>)"

text \<open>
  \<open>getSuggestions\<close>. The static list as pairs of id and text; every entry has type
  \<open>term\<close>. The third text begins with the code unit \<open>0xF6\<close> (o with diaeresis).
\<close>

definition staticSuggestions :: "(string \<times> string) list" where
  "staticSuggestions =
     [(''1'', ''steuerberater''), (''2'', ''beratung''), (''3'', CHR 0xF6 # ''sterreich''),
      (''4'', ''kontakt''), (''5'', ''unternehmen''), (''6'', ''service'')]"

definition term_suggestion :: "string \<times> string \<Rightarrow> SearchSuggestion" where
  "term_suggestion s =
     \<lparr>s_id = Some (fst s), s_text = JStr (snd s), s_type = JStr ''term'', s_url = JUndefined\<rparr>"

definition getStaticSuggestions :: "platform \<Rightarrow> string \<Rightarrow> number \<Rightarrow> SearchSuggestion list" where
  "getStaticSuggestions P term lim =
     map term_suggestion
       (js_slice0
          (filter (\<lambda>s. sublist (toLowerCase P term) (toLowerCase P (snd s))) staticSuggestions)
          lim)"

definition suggest_options :: RequestOptions where
  "suggest_options =
     \<lparr>opt_method = None, opt_headers = None, opt_body = JUndefined,
      opt_cache = Some ''default'',
      opt_next = Some \<lparr>revalidate = 600, next_tags = [''search-suggestions'']\<rparr>\<rparr>"

definition suggest_call ::
  "platform \<Rightarrow> int \<Rightarrow> CognitorApiClient \<Rightarrow> string \<Rightarrow> number \<Rightarrow> (error + jsval) effect" where
  "suggest_call P now c term lim =
     get P now c (''search/sites/'' @ siteId c @ ''/suggest'')
       (Some [(''q'', JStr term), (''limit'', JNum lim)]) suggest_options"

text \<open>
  The arrow function of \<open>response.data.map\<close> in \<open>getSuggestions\<close>, for the item at
  index \<open>i\<close>. \<open>None\<close> is a \<open>TypeError\<close>: the item is \<open>null\<close>, or its id does not
  convert to a text.
\<close>

definition to_suggestion :: "platform \<Rightarrow> nat \<Rightarrow> jsval \<Rightarrow> SearchSuggestion option" where
  "to_suggestion P i suggestion =
     (case (property suggestion ''id'', property suggestion ''text'',
            property suggestion ''title'', property suggestion ''type'',
            property suggestion ''url'') of
        (Some id_v, Some text_v, Some title_v, Some type_v, Some url_v) \<Rightarrow>
          (case (if id_v = JNull \<or> id_v = JUndefined then Some [] else ToString id_v) of
             None \<Rightarrow> None
           | Some id_text \<Rightarrow>
               Some \<lparr>s_id = Some (if id_text \<noteq> [] then id_text else random_toString P i),
                     s_text = js_or (js_or text_v title_v) suggestion,
                     s_type = js_or type_v (JStr ''term''),
                     s_url = url_v\<rparr>)
      | _ \<Rightarrow> None)"

text \<open>
  The items \<open>getSuggestions\<close> takes from the API: \<open>response.data\<close> when the response
  is successful and its data is a non-empty array.
\<close>

definition api_suggestions :: "jsval \<Rightarrow> jsval list option" where
  "api_suggestions response =
     (if response_success response
      then (case response_data response of
              JArr xs \<Rightarrow> if length xs > 0 then Some xs else None
            | _ \<Rightarrow> None)
      else None)"

definition getSuggestions ::
  "platform \<Rightarrow> int \<Rightarrow> CognitorApiClient \<Rightarrow> string \<Rightarrow> number option
     \<Rightarrow> (SearchSuggestion list CognitorResponse) effect" where
  "getSuggestions P now c term limit_arg =
     (let lim = (case limit_arg of None \<Rightarrow> Num 5 | Some l \<Rightarrow> l) in
      if trim term = [] then
        \<lparr>client = c, fetches = [],
         outcome = \<lparr>data = [], success = True, message_text = None\<rparr>\<rparr>
      else
        (let r = suggest_call P now c term lim;
             staticSuggestions = getStaticSuggestions P term lim;
             fallback = \<lparr>data = staticSuggestions, success = True,
                         message_text = Some ''Fallback suggestions provided''\<rparr>
         in \<lparr>client = client r, fetches = fetches r,
             outcome =
               (case outcome r of
                  Inl e \<Rightarrow> fallback
                | Inr response \<Rightarrow>
                    (case api_suggestions response of
                       Some xs \<Rightarrow>
                         (case those (map (\<lambda>(i, x). to_suggestion P i x)
                                        (zip [0..<length xs] xs)) of
                            Some suggestions \<Rightarrow>
                              \<lparr>data = suggestions, success = True,
                               message_text = Some ''API suggestions loaded successfully''\<rparr>
                          | None \<Rightarrow> fallback)
                     | None \<Rightarrow>
                         \<lparr>data = staticSuggestions, success = True,
                          message_text =
                            Some (if length staticSuggestions > 0
                                  then ''Static suggestions provided''
                                  else ''No suggestions found'')\<rparr>))\<rparr>))"

section \<open>The proxy routes (src/app/api/search/route.ts, src/app/api/search/suggestions/route.ts)\<close>

text \<open>
  The routes compute with doubles. A double holds every integer up to \<open>2^53\<close> in
  magnitude exactly, and sums and products of integers are exact as long as the
  result stays in that range. Beyond it the runtime rounds; the model does not follow
  the rounding: \<open>parseInt\<close>, \<open>num_minus\<close> and \<open>num_times\<close> give \<open>None\<close> there.
\<close>

definition exact_range :: "int \<Rightarrow> bool" where
  "exact_range n \<longleftrightarrow> - 9007199254740992 \<le> n \<and> n \<le> 9007199254740992"

text \<open>
  \<open>parseInt(s)\<close> without a radix: leading white space is skipped, a sign is read, a
  prefix \<open>0x\<close> or \<open>0X\<close> selects base 16, and the longest run of digits is the value;
  without a digit the result is \<open>NaN\<close>.
\<close>

definition digit_value :: "char \<Rightarrow> nat option" where
  "digit_value ch =
     (let n = (of_char ch :: nat) in
      if 48 \<le> n \<and> n \<le> 57 then Some (n - 48)
      else if 97 \<le> n \<and> n \<le> 122 then Some (n - 87)
      else if 65 \<le> n \<and> n \<le> 90 then Some (n - 55)
      else None)"

definition radix_digit :: "nat \<Rightarrow> char \<Rightarrow> bool" where
  "radix_digit r ch = (case digit_value ch of Some d \<Rightarrow> d < r | None \<Rightarrow> False)"

definition digits_value :: "nat \<Rightarrow> string \<Rightarrow> nat" where
  "digits_value r ds =
     foldl (\<lambda>acc ch. acc * r + (case digit_value ch of Some d \<Rightarrow> d | None \<Rightarrow> 0)) 0 ds"

definition parseInt :: "string \<Rightarrow> number option" where
  "parseInt s =
     (let s1 = dropWhile is_space s;
          negative = prefix ''-'' s1;
          s2 = (if prefix ''-'' s1 \<or> prefix ''+'' s1 then drop 1 s1 else s1);
          hex = (prefix ''0x'' s2 \<or> prefix ''0X'' s2);
          r = (if hex then 16 else 10);
          s3 = (if hex then drop 2 s2 else s2);
          ds = takeWhile (radix_digit r) s3;
          v = (if negative then - int (digits_value r ds) else int (digits_value r ds))
      in if ds = [] then Some NaN
         else if exact_range v then Some (Num v)
         else None)"

text \<open>\<open>a - k\<close> and \<open>a * b\<close> on numbers; an operand \<open>NaN\<close> gives \<open>NaN\<close>.\<close>

fun num_minus :: "number \<Rightarrow> int \<Rightarrow> number option" where
  "num_minus NaN k = Some NaN"
| "num_minus (Num a) k = (if exact_range (a - k) then Some (Num (a - k)) else None)"

fun num_times :: "number \<Rightarrow> number \<Rightarrow> number option" where
  "num_times (Num a) (Num b) = (if exact_range (a * b) then Some (Num (a * b)) else None)"
| "num_times a b = Some NaN"

text \<open>
  The query parameters of the inbound request, decoded, in order;
  \<open>searchParams.get(name)\<close> is the first value of the name. \<open>get(name) || d\<close> is \<open>d\<close>
  for a missing or empty value.
\<close>

definition param_or :: "(string \<times> string) list \<Rightarrow> string \<Rightarrow> string \<Rightarrow> string" where
  "param_or searchParams name d =
     (case map_of searchParams name of
        Some v \<Rightarrow> if v \<noteq> [] then v else d
      | None \<Rightarrow> d)"

datatype 'a NextResponse = Json_response 'a | Error_response int string

text \<open>
  What a route does with a request: it answers 400, or it calls the search service
  with an argument, or one of its numbers leaves the exact range (\<open>Inexact\<close>), where
  the model says nothing about the call.
\<close>

datatype 'a routed = Bad_request | Forward 'a | Inexact

text \<open>The argument that \<open>GET /api/search\<close> passes to \<open>searchService.search\<close>.\<close>

definition search_route_query :: "(string \<times> string) list \<Rightarrow> SearchQuery routed" where
  "search_route_query searchParams =
     (let page_n = parseInt (param_or searchParams ''page'' ''1'');
          limit_n = parseInt (param_or searchParams ''limit'' ''10'');
          category_p = (case map_of searchParams ''category'' of
                          Some v \<Rightarrow> if v \<noteq> [] then Some v else None
                        | None \<Rightarrow> None);
          tags_p = map_option (split_char CHR '','') (map_of searchParams ''tags'')
      in (case map_of searchParams ''q'' of
            None \<Rightarrow> Bad_request
          | Some q \<Rightarrow>
              if q = [] \<or> length (trim q) = 0 then Bad_request
              else (case (page_n, limit_n) of
                      (Some page_v, Some limit_v) \<Rightarrow>
                        (case num_minus page_v 1 of
                           Some page_before \<Rightarrow>
                             (case num_times page_before limit_v of
                                Some offset_v \<Rightarrow>
                                  Forward \<lparr>query = JStr (trim q),
                                           limit = Some limit_v,
                                           offset = Some offset_v,
                                           filters = Some \<lparr>category = category_p,
                                                            tags = tags_p,
                                                            contentType = None,
                                                            dateRange = None\<rparr>\<rparr>
                              | None \<Rightarrow> Inexact)
                         | None \<Rightarrow> Inexact)
                    | _ \<Rightarrow> Inexact)))"

text \<open>
  \<open>GET /api/search\<close>; \<open>None\<close> for a request beyond the exact range. \<open>search\<close> has no
  error exit, so the \<open>catch\<close> of the route (status 500) is never entered.
\<close>

definition GET_search ::
  "platform \<Rightarrow> int \<Rightarrow> CognitorApiClient \<Rightarrow> (string \<times> string) list
     \<Rightarrow> (PaginatedData CognitorResponse NextResponse) effect option" where
  "GET_search P now c searchParams =
     (case search_route_query searchParams of
        Bad_request \<Rightarrow>
          Some \<lparr>client = c, fetches = [],
                outcome = Error_response 400 ''Query parameter is required''\<rparr>
      | Forward q \<Rightarrow>
          (let r = search P now c q in
           Some \<lparr>client = client r, fetches = fetches r,
                 outcome = Json_response (outcome r)\<rparr>)
      | Inexact \<Rightarrow> None)"



section \<open>The pages service and the content reference resolver\<close>

text \<open>\<open>GetPagesParams\<close> and \<open>PagesService.getPages\<close> (src/lib/api/pages.ts).\<close>

record GetPagesParams =
  pages_limit :: "number option"
  pages_offset :: "number option"
  pages_status :: "string option"
  pages_category :: "string option"
  pages_tag :: "string option"
  pages_search :: "string option"

definition pages_params :: "GetPagesParams \<Rightarrow> (string \<times> jsval) list" where
  "pages_params params =
     (let number_param = (\<lambda>name v. case v of
                            Some n \<Rightarrow> if num_truthy n then [(name, JNum n)] else []
                          | None \<Rightarrow> []);
          text_param = (\<lambda>name v. case v of
                          Some s \<Rightarrow> if s \<noteq> [] then [(name, JStr s)] else []
                        | None \<Rightarrow> [])
      in number_param ''limit'' (pages_limit params)
         @ number_param ''offset'' (pages_offset params)
         @ text_param ''status'' (pages_status params)
         @ text_param ''category'' (pages_category params)
         @ text_param ''tag'' (pages_tag params)
         @ text_param ''search'' (pages_search params))"

definition pages_options :: RequestOptions where
  "pages_options =
     \<lparr>opt_method = None, opt_headers = None, opt_body = JUndefined,
      opt_cache = Some ''force-cache'',
      opt_next = Some \<lparr>revalidate = 3600, next_tags = [''pages'']\<rparr>\<rparr>"

definition getPages ::
  "platform \<Rightarrow> int \<Rightarrow> CognitorApiClient \<Rightarrow> GetPagesParams \<Rightarrow> (error + jsval) effect" where
  "getPages P now c params = get P now c ''pages'' (Some (pages_params params)) pages_options"

text \<open>
  \<open>resolveContentReferences\<close> (the content reference components). The loop over
  \<open>referencePatterns\<close> stops at the first field of \<open>data\<close> that holds an array.
\<close>

definition referencePatterns :: "string list" where
  "referencePatterns =
     [''references'', ''refs'', ''items'', ''content_items'',
      ''news_ids'', ''article_ids'', ''post_ids'', ''page_ids'',
      ''news'', ''articles'', ''posts'', ''pages'',
      ''content'', ''related_content'']"

fun findReferenceData :: "(string \<times> jsval) list \<Rightarrow> string list \<Rightarrow> jsval list" where
  "findReferenceData props [] = []"
| "findReferenceData props (pattern # rest) =
     (case field props pattern of
        JArr referenceData \<Rightarrow> referenceData
      | _ \<Rightarrow> findReferenceData props rest)"

text \<open>
  \<open>referenceData.some(item => typeof item === 'object' && item.title)\<close>. \<open>typeof null\<close>
  is \<open>'object'\<close>, so reaching a \<open>null\<close> item raises a \<open>TypeError\<close> (\<open>None\<close>); an array
  item has no title. The test before it, for numeric ids, only writes to the console.
\<close>

fun some_resolved :: "jsval list \<Rightarrow> bool option" where
  "some_resolved [] = Some False"
| "some_resolved (JNull # rest) = None"
| "some_resolved (JObj item # rest) =
     (if truthy (field item ''title'') then Some True else some_resolved rest)"
| "some_resolved (item # rest) = some_resolved rest"

definition searchQuery :: "(string \<times> jsval) list \<Rightarrow> string \<Rightarrow> jsval" where
  "searchQuery props content_type =
     (if sublist ''news'' content_type then JStr ''news''
      else if sublist ''article'' content_type then JStr ''article''
      else if sublist ''post'' content_type then JStr ''post''
      else if truthy (field props ''search_term'') then field props ''search_term''
      else if truthy (field props ''category'') then field props ''category''
      else JStr ''content'')"

text \<open>
  \<open>v > 0\<close> on a value: an object or array is converted to a text first, which can
  raise; what number a text stands for is the platform's.
\<close>

fun js_positive :: "platform \<Rightarrow> jsval \<Rightarrow> bool option" where
  "js_positive P JUndefined = Some False"
| "js_positive P JNull = Some False"
| "js_positive P (JBool b) = Some b"
| "js_positive P (JNum NaN) = Some False"
| "js_positive P (JNum (Num n)) = Some (0 < n)"
| "js_positive P (JStr s) = Some (string_positive P s)"
| "js_positive P v = map_option (string_positive P) (ToString v)"

text \<open>
  The end of \<open>resolveContentReferences\<close> on the response of the pages service:
  \<open>response.success && response.data.items && response.data.items.length > 0\<close>
  returns the items, anything else the empty list; reading \<open>items\<close> from a \<open>null\<close>
  \<open>data\<close> raises.
\<close>

definition pages_items :: "platform \<Rightarrow> jsval \<Rightarrow> error + jsval" where
  "pages_items P response =
     (if response_success response
      then (case property (response_data response) ''items'' of
              None \<Rightarrow> Inl (Thrown TypeError)
            | Some its \<Rightarrow>
                if truthy its
                then (case property its ''length'' of
                        None \<Rightarrow> Inl (Thrown TypeError)
                      | Some len \<Rightarrow>
                          (case js_positive P len of
                             None \<Rightarrow> Inl (Thrown TypeError)
                           | Some True \<Rightarrow> Inr its
                           | Some False \<Rightarrow> Inr (JArr [])))
                else Inr (JArr []))
      else Inr (JArr []))"

text \<open>
  \<open>resolveContentReferences(data, contentType, limit)\<close> with \<open>props\<close> the properties of
  \<open>data\<close>; \<open>now1\<close> and \<open>now2\<close> are the
  times of the search request and of the pages request. The outer \<open>catch\<close> rethrows.
  \<open>search\<close> has no error exit, so the inner \<open>catch\<close> is never entered.
\<close>

definition resolveContentReferences ::
  "platform \<Rightarrow> int \<Rightarrow> int \<Rightarrow> CognitorApiClient \<Rightarrow> (string \<times> jsval) list \<Rightarrow> string
     \<Rightarrow> number option \<Rightarrow> (error + jsval) effect" where
  "resolveContentReferences P now1 now2 c props content_type limit_arg =
     (let referenceData = findReferenceData props referencePatterns;
          n = Num (num_or limit_arg 10)
      in case (if length referenceData > 0 then some_resolved referenceData
               else Some False) of
           None \<Rightarrow> \<lparr>client = c, fetches = [], outcome = Inl (Thrown TypeError)\<rparr>
         | Some True \<Rightarrow>
             \<lparr>client = c, fetches = [], outcome = Inr (JArr (js_slice0 referenceData n))\<rparr>
         | Some False \<Rightarrow>
             (let searchResponse =
                    search P now1 c
                      \<lparr>query = searchQuery props content_type, limit = Some n,
                       offset = None, filters = None\<rparr>
              in if success (outcome searchResponse)
                    \<and> length (items (data (outcome searchResponse))) > 0
                 then \<lparr>client = client searchResponse, fetches = fetches searchResponse,
                       outcome = Inr (JArr (items (data (outcome searchResponse))))\<rparr>
                 else
                   (let r = getPages P now2 (client searchResponse)
                              \<lparr>pages_limit = Some n, pages_offset = None,
                               pages_status = Some ''published'', pages_category = None,
                               pages_tag = None, pages_search = None\<rparr>
                    in \<lparr>client = client r,
                        fetches = fetches searchResponse @ fetches r,
                        outcome = (case outcome r of
                                     Inl e \<Rightarrow> Inl e
                                   | Inr response \<Rightarrow> pages_items P response)\<rparr>)))"

section \<open>Properties of the navigation service\<close>

lemma length_pushSegments:
  "length (pushSegments up n cp k segs) = length segs"
  by (induction segs arbitrary: cp k) (simp_all add: Let_def)

lemma slash_concat_join:
  "xs \<noteq> [] \<Longrightarrow> concat (map ((#) CHR ''/'') xs) = CHR ''/'' # join ''/'' xs"
proof (induction xs)
  case Nil
  then show ?case by simp
next
  case (Cons x xs)
  then show ?case by (cases xs) simp_all
qed

lemma nth_pushSegments:
  "i < length segs \<Longrightarrow>
   pushSegments up n cp k segs ! i =
     NavigationItem (''breadcrumb-'' @ show_nat (k + i))
       (formatSegmentTitle up (segs ! i))
       (Some (cp @ concat (map (\<lambda>s. ''/'' @ s) (take (Suc i) segs))))
       None None None None
       (int (k + i) + 1)
       (Some (int (k + i) = int n - 1))"
proof (induction segs arbitrary: cp k i)
  case Nil
  then show ?case by simp
next
  case (Cons s segs)
  show ?case
  proof (cases i)
    case 0
    then show ?thesis by (simp add: Let_def)
  next
    case (Suc j)
    with Cons.prems have "j < length segs" by simp
    from Cons.IH [OF this, of "cp @ ''/'' @ s" "Suc k"] Suc
    show ?thesis by (simp add: Let_def)
  qed
qed

text \<open>
  C9. The fallback breadcrumbs are determined by the path: with \<open>n\<close> non-empty
  segments there are \<open>n + 1\<close> items; the first is Home with url \<open>/\<close> and order 0; item
  \<open>i\<close> (from 1 to \<open>n\<close>) has order \<open>i\<close> and url \<open>/\<close> followed by the first \<open>i\<close> segments
  joined by \<open>/\<close>; Home is active iff \<open>n = 0\<close>, and for \<open>n > 0\<close> exactly the last item
  is active.
\<close>

theorem generateFallbackBreadcrumbs_shape:
  fixes toUpperCase :: "string \<Rightarrow> string" and path :: string
  defines "segments \<equiv> filter (\<lambda>s. s \<noteq> []) (split_char CHR ''/'' path)"
  defines "bs \<equiv> generateFallbackBreadcrumbs toUpperCase path"
  shows "length bs = length segments + 1
       \<and> item_id (bs ! 0) = ''home'' \<and> title (bs ! 0) = ''Home''
       \<and> url (bs ! 0) = Some ''/'' \<and> order (bs ! 0) = 0
       \<and> (\<forall>i. 1 \<le> i \<and> i \<le> length segments \<longrightarrow>
             order (bs ! i) = int i
           \<and> url (bs ! i) = Some (''/'' @ join ''/'' (take i segments)))
       \<and> isActive (bs ! 0) = Some (length segments = 0)
       \<and> (0 < length segments \<longrightarrow>
            (\<forall>i \<le> length segments. isActive (bs ! i) = Some (i = length segments)))"
proof -
  have bs: "bs = NavigationItem ''home'' ''Home'' (Some ''/'') None None None None 0
                   (Some (length segments = 0))
                 # pushSegments toUpperCase (length segments) [] 0 segments"
    by (simp add: bs_def segments_def generateFallbackBreadcrumbs_def Let_def)
  have len: "length bs = length segments + 1"
    by (simp add: bs length_pushSegments)
  have item: "order (bs ! i) = int i
            \<and> url (bs ! i) = Some (''/'' @ join ''/'' (take i segments))
            \<and> isActive (bs ! i) = Some (i = length segments)"
    if "1 \<le> i" "i \<le> length segments" for i
  proof -
    from that obtain j where j: "i = Suc j" "j < length segments"
      by (cases i) auto
    then have ne: "take (Suc j) segments \<noteq> []" by (cases segments) auto
    have "int j = int (length segments) - 1 \<longleftrightarrow> Suc j = length segments"
      by auto
    with j ne show ?thesis
      by (simp add: bs nth_pushSegments [OF j(2)] slash_concat_join [OF ne])
  qed
  have act: "isActive (bs ! i) = Some (i = length segments)"
    if "0 < length segments" "i \<le> length segments" for i
  proof (cases i)
    case 0
    with that show ?thesis by (auto simp: bs)
  next
    case (Suc j)
    with that item [of i] show ?thesis by simp
  qed
  from len item act show ?thesis by (simp add: bs)
qed

theorem generateFallbackBreadcrumbs_shape_witness:
  "generateFallbackBreadcrumbs (\<lambda>s. s) ''/blog//my-post'' =
     [NavigationItem ''home'' ''Home'' (Some ''/'') None None None None 0 (Some False),
      NavigationItem ''breadcrumb-0'' ''blog'' (Some ''/blog'') None None None None 1 (Some False),
      NavigationItem ''breadcrumb-1'' ''my post'' (Some ''/blog/my-post'') None None None None 2
        (Some True)]
   \<and> filter (\<lambda>s. s \<noteq> []) (split_char CHR ''/'' ''/blog//my-post'') = [''blog'', ''my-post'']
   \<and> order (generateFallbackBreadcrumbs (\<lambda>s. s) ''/blog//my-post'' ! 2) = 2
   \<and> url (generateFallbackBreadcrumbs (\<lambda>s. s) ''/blog//my-post'' ! 2)
       = Some (''/'' @ join ''/'' (take 2 [''blog'', ''my-post'']))
   \<and> isActive (generateFallbackBreadcrumbs (\<lambda>s. s) ''/blog//my-post'' ! 2) = Some True"
proof -
  have segs: "filter (\<lambda>s. s \<noteq> []) (split_char CHR ''/'' ''/blog//my-post'')
                = [''blog'', ''my-post'']"
    by simp
  have val: "generateFallbackBreadcrumbs (\<lambda>s. s) ''/blog//my-post'' =
     [NavigationItem ''home'' ''Home'' (Some ''/'') None None None None 0 (Some False),
      NavigationItem ''breadcrumb-0'' ''blog'' (Some ''/blog'') None None None None 1 (Some False),
      NavigationItem ''breadcrumb-1'' ''my post'' (Some ''/blog/my-post'') None None None None 2
        (Some True)]"
    by (simp add: generateFallbackBreadcrumbs_def formatSegmentTitle_def Let_def
          show_nat.simps [of 0] show_nat.simps [of "Suc 0"])
  from generateFallbackBreadcrumbs_shape [of "\<lambda>s. s" "''/blog//my-post''"]
  have "order (generateFallbackBreadcrumbs (\<lambda>s. s) ''/blog//my-post'' ! 2) = 2
      \<and> url (generateFallbackBreadcrumbs (\<lambda>s. s) ''/blog//my-post'' ! 2)
          = Some (''/'' @ join ''/'' (take 2 [''blog'', ''my-post'']))
      \<and> isActive (generateFallbackBreadcrumbs (\<lambda>s. s) ''/blog//my-post'' ! 2) = Some True"
    unfolding segs by simp
  with segs val show ?thesis by simp
qed

text \<open>
  C10. \<open>markActiveNavigation\<close> keeps the length and the order of the list; each returned
  item agrees with the input item at the same position on every field but \<open>isActive\<close>
  and \<open>children\<close>; \<open>isActive\<close> is what \<open>isNavigationItemActive\<close> says of the input item,
  and a present \<open>children\<close> list is transformed by the same function.
\<close>

theorem markActiveNavigation_frame:
  "length (markActiveNavigation navigation currentPath) = length navigation
 \<and> (\<forall>i < length navigation.
      item_id (markActiveNavigation navigation currentPath ! i) = item_id (navigation ! i)
    \<and> title (markActiveNavigation navigation currentPath ! i) = title (navigation ! i)
    \<and> url (markActiveNavigation navigation currentPath ! i) = url (navigation ! i)
    \<and> slug (markActiveNavigation navigation currentPath ! i) = slug (navigation ! i)
    \<and> external (markActiveNavigation navigation currentPath ! i) = external (navigation ! i)
    \<and> target (markActiveNavigation navigation currentPath ! i) = target (navigation ! i)
    \<and> order (markActiveNavigation navigation currentPath ! i) = order (navigation ! i)
    \<and> isActive (markActiveNavigation navigation currentPath ! i)
        = Some (isNavigationItemActive (navigation ! i) currentPath)
    \<and> children (markActiveNavigation navigation currentPath ! i)
        = map_option (\<lambda>cs. markActiveNavigation cs currentPath) (children (navigation ! i)))"
  by (subst (1 2 3 4 5 6 7 8 9 10) markActiveNavigation.simps)
     (simp split: option.split)

theorem markActiveNavigation_frame_witness:
  "markActiveNavigation
     [NavigationItem ''1'' ''Home'' (Some ''/'') None None None None 0 None,
      NavigationItem ''2'' ''Blog'' (Some ''/blog'') (Some ''blog'') None None
        (Some [NavigationItem ''3'' ''Post'' (Some ''/blog/post'') None None None (Some []) 0
                 (Some False)])
        1 None]
     ''/blog/post''
   = [NavigationItem ''1'' ''Home'' (Some ''/'') None None None None 0 (Some False),
      NavigationItem ''2'' ''Blog'' (Some ''/blog'') (Some ''blog'') None None
        (Some [NavigationItem ''3'' ''Post'' (Some ''/blog/post'') None None None (Some []) 0
                 (Some True)])
        1 (Some True)]
   \<and> (1::nat) < length [NavigationItem ''1'' ''Home'' (Some ''/'') None None None None 0 None,
      NavigationItem ''2'' ''Blog'' (Some ''/blog'') (Some ''blog'') None None
        (Some [NavigationItem ''3'' ''Post'' (Some ''/blog/post'') None None None (Some []) 0
                 (Some False)])
        1 None]"
  using markActiveNavigation_frame
    [of "[NavigationItem ''1'' ''Home'' (Some ''/'') None None None None 0 None,
      NavigationItem ''2'' ''Blog'' (Some ''/blog'') (Some ''blog'') None None
        (Some [NavigationItem ''3'' ''Post'' (Some ''/blog/post'') None None None (Some []) 0
                 (Some False)])
        1 None]" "''/blog/post''"]
  by (simp add: markActiveNavigation.simps isNavigationItemActive_def)

section \<open>Properties of the recent searches\<close>

text \<open>
  C8, as the claim states it: after \<open>saveRecentSearch(term)\<close> the stored list has
  \<open>term\<close> at index 0, for every term and every prior stored list. When the storage
  rejects the write (\<open>setItem\<close> raises, the \<open>catch\<close> only warns), the stored list
  stays as it was: with \<open>[a, b, c]\<close> stored, saving \<open>b\<close> leaves \<open>a\<close> at index 0.
\<close>

theorem saveRecentSearch_rejected_write:
  "localStorage
     (saveRecentSearch
        \<lparr>has_window = True, quota_exceeded = True,
         localStorage = [recent_key \<mapsto> Json (JArr [JStr ''a'', JStr ''b'', JStr ''c''])]\<rparr>
        ''b'')
     recent_key
   = Some (Json (JArr [JStr ''a'', JStr ''b'', JStr ''c'']))
 \<and> [JStr ''a'', JStr ''b'', JStr ''c''] ! 0 \<noteq> JStr ''b''"
  by (simp add: saveRecentSearch_def existingRecentSearches_def Let_def)

text \<open>
  C8, amended. In a browser whose storage accepts the write, with a prior stored list
  \<open>xs\<close> (the empty list when the item is missing or empty): after
  \<open>saveRecentSearch(term)\<close> the stored list has \<open>term\<close> at index 0, contains it exactly
  once, has at most 10 entries, and its other entries are the first nine of the
  previously stored terms other than \<open>term\<close>, in their previous order;
  \<open>getRecentSearches(limit)\<close> then returns \<open>slice(0, limit)\<close> of that list, which for
  a limit \<open>n \<ge> 0\<close> is its first \<open>n\<close> entries (all of them if there are fewer), so
  at most \<open>n\<close>, and without an argument its first five. Outside a browser, or when
  the storage rejects the write, \<open>saveRecentSearch\<close> changes nothing.
\<close>

theorem saveRecentSearch_invariant:
  "(has_window env \<and> \<not> quota_exceeded env \<and> existingRecentSearches env = Some xs \<longrightarrow>
      (\<exists>ys. localStorage (saveRecentSearch env term) recent_key = Some (Json (JArr ys))
            \<and> ys ! 0 = JStr term
            \<and> count_list ys (JStr term) = 1
            \<and> length ys \<le> 10
            \<and> tl ys = take 9 (filter (\<lambda>s. s \<noteq> JStr term) xs)
            \<and> (\<forall>lim. getRecentSearches (saveRecentSearch env term) (Some lim)
                        = map recent_suggestion (js_slice0 ys lim))
            \<and> (\<forall>n. 0 \<le> n \<longrightarrow>
                   getRecentSearches (saveRecentSearch env term) (Some (Num n))
                     = map recent_suggestion (take (nat n) ys)
                 \<and> length (getRecentSearches (saveRecentSearch env term) (Some (Num n)))
                     \<le> nat n)
            \<and> getRecentSearches (saveRecentSearch env term) None
                = map recent_suggestion (take 5 ys)))
 \<and> (\<not> has_window env \<or> quota_exceeded env \<longrightarrow> saveRecentSearch env term = env)"
proof (intro conjI impI)
  assume h: "has_window env \<and> \<not> quota_exceeded env \<and> existingRecentSearches env = Some xs"
  let ?rest = "take 9 (filter (\<lambda>s. s \<noteq> JStr term) xs)"
  let ?ys = "JStr term # ?rest"
  have notin: "JStr term \<notin> set ?rest"
    using set_take_subset [of 9 "filter (\<lambda>s. s \<noteq> JStr term) xs"] by auto
  have stored: "localStorage (saveRecentSearch env term) recent_key = Some (Json (JArr ?ys))"
    using h by (simp add: saveRecentSearch_def Let_def)
  have win: "has_window (saveRecentSearch env term)"
    using h by (simp add: saveRecentSearch_def Let_def)
  have cnt: "count_list ?ys (JStr term) = 1"
    using notin by (simp add: count_list_0_iff)
  have get_any: "getRecentSearches (saveRecentSearch env term) (Some lim)
                   = map recent_suggestion (js_slice0 ?ys lim)" for lim
    using win stored by (simp add: getRecentSearches_def)
  have get_d: "getRecentSearches (saveRecentSearch env term) None
                = map recent_suggestion (take 5 ?ys)"
    using win stored by (simp add: getRecentSearches_def)
  have get_n: "getRecentSearches (saveRecentSearch env term) (Some (Num n))
                 = map recent_suggestion (take (nat n) ?ys)
             \<and> length (getRecentSearches (saveRecentSearch env term) (Some (Num n))) \<le> nat n"
    if "0 \<le> n" for n
    using that by (simp add: get_any)
  show "\<exists>ys. localStorage (saveRecentSearch env term) recent_key = Some (Json (JArr ys))
            \<and> ys ! 0 = JStr term
            \<and> count_list ys (JStr term) = 1
            \<and> length ys \<le> 10
            \<and> tl ys = take 9 (filter (\<lambda>s. s \<noteq> JStr term) xs)
            \<and> (\<forall>lim. getRecentSearches (saveRecentSearch env term) (Some lim)
                        = map recent_suggestion (js_slice0 ys lim))
            \<and> (\<forall>n. 0 \<le> n \<longrightarrow>
                   getRecentSearches (saveRecentSearch env term) (Some (Num n))
                     = map recent_suggestion (take (nat n) ys)
                 \<and> length (getRecentSearches (saveRecentSearch env term) (Some (Num n)))
                     \<le> nat n)
            \<and> getRecentSearches (saveRecentSearch env term) None
                = map recent_suggestion (take 5 ys)"
    using stored cnt get_any get_d get_n by (intro exI [of _ ?ys]) simp
next
  assume "\<not> has_window env \<or> quota_exceeded env"
  then show "saveRecentSearch env term = env"
    by (auto simp: saveRecentSearch_def Let_def split: option.split)
qed

theorem saveRecentSearch_invariant_witness:
  "has_window \<lparr>has_window = True, quota_exceeded = False,
      localStorage = [recent_key \<mapsto> Json (JArr [JStr ''a'', JStr ''b'', JStr ''c''])]\<rparr>
 \<and> \<not> quota_exceeded \<lparr>has_window = True, quota_exceeded = False,
      localStorage = [recent_key \<mapsto> Json (JArr [JStr ''a'', JStr ''b'', JStr ''c''])]\<rparr>
 \<and> existingRecentSearches \<lparr>has_window = True, quota_exceeded = False,
      localStorage = [recent_key \<mapsto> Json (JArr [JStr ''a'', JStr ''b'', JStr ''c''])]\<rparr>
     = Some [JStr ''a'', JStr ''b'', JStr ''c'']
 \<and> localStorage (saveRecentSearch \<lparr>has_window = True, quota_exceeded = False,
      localStorage = [recent_key \<mapsto> Json (JArr [JStr ''a'', JStr ''b'', JStr ''c''])]\<rparr> ''b'')
     recent_key = Some (Json (JArr [JStr ''b'', JStr ''a'', JStr ''c'']))
 \<and> (0::int) \<le> 2
 \<and> getRecentSearches (saveRecentSearch \<lparr>has_window = True, quota_exceeded = False,
      localStorage = [recent_key \<mapsto> Json (JArr [JStr ''a'', JStr ''b'', JStr ''c''])]\<rparr> ''b'')
       (Some (Num 2))
     = [recent_suggestion (JStr ''b''), recent_suggestion (JStr ''a'')]
 \<and> getRecentSearches (saveRecentSearch \<lparr>has_window = True, quota_exceeded = False,
      localStorage = [recent_key \<mapsto> Json (JArr [JStr ''a'', JStr ''b'', JStr ''c''])]\<rparr> ''b'')
       None
     = [recent_suggestion (JStr ''b''), recent_suggestion (JStr ''a''),
        recent_suggestion (JStr ''c'')]
 \<and> quota_exceeded \<lparr>has_window = True, quota_exceeded = True, localStorage = Map.empty\<rparr>
 \<and> saveRecentSearch \<lparr>has_window = True, quota_exceeded = True, localStorage = Map.empty\<rparr>
       ''b''
     = \<lparr>has_window = True, quota_exceeded = True, localStorage = Map.empty\<rparr>"
proof -
  let ?env = "\<lparr>has_window = True, quota_exceeded = False,
      localStorage = [recent_key \<mapsto> Json (JArr [JStr ''a'', JStr ''b'', JStr ''c''])]\<rparr>"
  let ?full = "\<lparr>has_window = True, quota_exceeded = True, localStorage = Map.empty\<rparr>"
  have w: "has_window ?env" and q: "\<not> quota_exceeded ?env" by simp_all
  have e: "existingRecentSearches ?env = Some [JStr ''a'', JStr ''b'', JStr ''c'']"
    by (simp add: existingRecentSearches_def)
  have v: "localStorage (saveRecentSearch ?env ''b'') recent_key
             = Some (Json (JArr [JStr ''b'', JStr ''a'', JStr ''c'']))"
    by (simp add: saveRecentSearch_def existingRecentSearches_def Let_def)
  have n: "(0::int) \<le> 2" by simp
  have h: "has_window ?env \<and> \<not> quota_exceeded ?env
         \<and> existingRecentSearches ?env = Some [JStr ''a'', JStr ''b'', JStr ''c'']"
    using w q e by simp
  note T = saveRecentSearch_invariant
             [of ?env "[JStr ''a'', JStr ''b'', JStr ''c'']" "''b''"]
  from T [THEN conjunct1, THEN mp, OF h]
  obtain ys where ys: "localStorage (saveRecentSearch ?env ''b'') recent_key
                         = Some (Json (JArr ys))"
    and gn: "\<forall>n. 0 \<le> n \<longrightarrow>
               getRecentSearches (saveRecentSearch ?env ''b'') (Some (Num n))
                 = map recent_suggestion (take (nat n) ys)
             \<and> length (getRecentSearches (saveRecentSearch ?env ''b'') (Some (Num n)))
                 \<le> nat n"
    and gd: "getRecentSearches (saveRecentSearch ?env ''b'') None
               = map recent_suggestion (take 5 ys)"
    by (elim exE conjE)
  from ys v have y: "ys = [JStr ''b'', JStr ''a'', JStr ''c'']" by simp
  have g2: "getRecentSearches (saveRecentSearch ?env ''b'') (Some (Num 2))
              = [recent_suggestion (JStr ''b''), recent_suggestion (JStr ''a'')]"
    using gn [rule_format, OF n, THEN conjunct1] by (simp add: y)
  have g5: "getRecentSearches (saveRecentSearch ?env ''b'') None
              = [recent_suggestion (JStr ''b''), recent_suggestion (JStr ''a''),
                 recent_suggestion (JStr ''c'')]"
    using gd by (simp add: y)
  have qf: "quota_exceeded ?full" by simp
  then have qf': "\<not> has_window ?full \<or> quota_exceeded ?full" by simp
  have u: "saveRecentSearch ?full ''b'' = ?full"
    by (rule saveRecentSearch_invariant [of ?full _ "''b''", THEN conjunct2, THEN mp, OF qf'])
  show ?thesis
    by (intro conjI) (rule w q e v n g2 g5 qf u)+
qed

section \<open>Properties of the API client\<close>

lemma checkRateLimit_fields:
  "baseUrl (checkRateLimit now endpoint c) = baseUrl c"
  "siteId (checkRateLimit now endpoint c) = siteId c"
  "apiKey (checkRateLimit now endpoint c) = apiKey c"
  by (simp_all add: checkRateLimit_def Let_def)

lemma buildUrl_cong:
  "baseUrl c' = baseUrl c \<Longrightarrow> siteId c' = siteId c \<Longrightarrow> buildUrl c' endpoint = buildUrl c endpoint"
  by (simp add: buildUrl_def Let_def)

lemma requestInit_cong:
  "apiKey c' = apiKey c \<Longrightarrow> requestInit c' options = requestInit c options"
  by (simp add: requestInit_def getHeaders_def)

lemma fetches_request:
  "fetches (request P now c endpoint options) = [(buildUrl c endpoint, requestInit c options)]"
  by (simp add: request_def Let_def checkRateLimit_fields
        buildUrl_cong [of "checkRateLimit now endpoint c" c]
        requestInit_cong [of "checkRateLimit now endpoint c" c])

lemma outcome_request:
  "outcome (request P now c endpoint options) =
     (case fetch P (buildUrl c endpoint) (requestInit c options) of
        Rejected e \<Rightarrow> Inl (ApiError (network_error e))
      | Responded response \<Rightarrow>
          if \<not> ok response then Inl (ApiError (http_error response))
          else (case json response of
                  Inl e \<Rightarrow> Inl (ApiError (network_error e))
                | Inr rawData \<Rightarrow> Inr (to_response rawData)))"
  by (simp add: request_def Let_def checkRateLimit_fields
        buildUrl_cong [of "checkRateLimit now endpoint c" c]
        requestInit_cong [of "checkRateLimit now endpoint c" c])

lemma client_request:
  "client (request P now c endpoint options) = checkRateLimit now endpoint c"
  by (simp add: request_def Let_def)

text \<open>
  C5. \<open>checkRateLimit\<close> has two ways out, both a normal return: the client as it
  was, or the client with the time recorded for the endpoint. Whatever the tracker
  holds and whatever the time, \<open>request\<close> goes on to issue its \<open>fetch\<close>, and neither
  the \<open>fetch\<close> nor the result of the request depends on the tracker.
\<close>

theorem checkRateLimit_never_blocks:
  "(checkRateLimit now endpoint c = c
      \<or> checkRateLimit now endpoint c
          = c\<lparr>rateLimitTracker := (rateLimitTracker c)(endpoint \<mapsto> now)\<rparr>)
 \<and> fetches (request P now c endpoint options)
      = [(buildUrl c endpoint, requestInit c options)]
 \<and> fetches (request P now (c\<lparr>rateLimitTracker := tracker\<rparr>) endpoint options)
      = fetches (request P now c endpoint options)
 \<and> outcome (request P now (c\<lparr>rateLimitTracker := tracker\<rparr>) endpoint options)
      = outcome (request P now c endpoint options)"
proof -
  have "checkRateLimit now endpoint c = c
      \<or> checkRateLimit now endpoint c
          = c\<lparr>rateLimitTracker := (rateLimitTracker c)(endpoint \<mapsto> now)\<rparr>"
    by (simp add: checkRateLimit_def Let_def)
  moreover have "buildUrl (c\<lparr>rateLimitTracker := tracker\<rparr>) endpoint = buildUrl c endpoint"
    by (rule buildUrl_cong) simp_all
  moreover have "requestInit (c\<lparr>rateLimitTracker := tracker\<rparr>) options = requestInit c options"
    by (rule requestInit_cong) simp
  ultimately show ?thesis
    by (simp add: fetches_request outcome_request)
qed

theorem checkRateLimit_never_blocks_witness:
  "fetches (request offline 5001 (fresh_client\<lparr>rateLimitTracker := [''pages'' \<mapsto> 5000]\<rparr>)
      ''pages'' no_options)
   = [(''https://cms.example/api/public/site1/pages'',
       \<lparr>init_method = ''GET'',
        init_headers = [(''Content-Type'', ''application/json''),
                        (''Accept'', ''application/json'')],
        init_cache = ''default'', init_next = None, init_body = None\<rparr>)]"
  using checkRateLimit_never_blocks
    [of 5001 "''pages''" "fresh_client\<lparr>rateLimitTracker := [''pages'' \<mapsto> 5000]\<rparr>"
        offline no_options]
  by (simp add: buildUrl_def requestInit_def getHeaders_def fresh_client_def no_options_def)

text \<open>
  C6. One call of \<open>request\<close> issues at most one \<open>fetch\<close>; when that \<open>fetch\<close> rejects
  or answers with a status that is not ok, the request throws a \<open>CognitorApiError\<close>
  and the one \<open>fetch\<close> stays the only one.
\<close>

theorem request_retries_nothing:
  "length (fetches (request P now c endpoint options)) \<le> 1
 \<and> ((case fetch P (buildUrl c endpoint) (requestInit c options) of
        Rejected e \<Rightarrow> True
      | Responded response \<Rightarrow> \<not> ok response)
     \<longrightarrow> (\<exists>err. outcome (request P now c endpoint options) = Inl (ApiError err))
       \<and> fetches (request P now c endpoint options)
           = [(buildUrl c endpoint, requestInit c options)])"
  by (simp add: fetches_request outcome_request split: fetch_result.split)

theorem request_retries_nothing_witness:
  "(case fetch offline (buildUrl fresh_client ''pages'') (requestInit fresh_client no_options) of
      Rejected e \<Rightarrow> True
    | Responded response \<Rightarrow> \<not> ok response)
 \<and> outcome (request offline 5000 fresh_client ''pages'' no_options)
     = Inl (ApiError \<lparr>statusCode = 0, code = JStr ''NETWORK_ERROR'',
                      message = Message ''fetch failed'', details = JUndefined\<rparr>)
 \<and> (case fetch (answering \<lparr>ok = False, status = 404, statusText = ''Not Found'',
                             json = Inl (Failure ''Unexpected token'')\<rparr>)
            (buildUrl fresh_client ''pages'') (requestInit fresh_client no_options) of
      Rejected e \<Rightarrow> True
    | Responded response \<Rightarrow> \<not> ok response)
 \<and> outcome (request (answering \<lparr>ok = False, status = 404, statusText = ''Not Found'',
                                  json = Inl (Failure ''Unexpected token'')\<rparr>)
              5000 fresh_client ''pages'' no_options)
     = Inl (ApiError \<lparr>statusCode = 404, code = JStr ''UNKNOWN_ERROR'',
                      message = Message ''HTTP 404: Not Found'', details = JUndefined\<rparr>)
 \<and> length (fetches (request offline 5000 fresh_client ''pages'' no_options)) = 1"
proof -
  let ?r = "\<lparr>ok = False, status = 404, statusText = ''Not Found'',
             json = Inl (Failure ''Unexpected token'')\<rparr>"
  have s404: "show_int 404 = ''404''"
    by (simp add: show_int_def show_nat.simps [of 404] show_nat.simps [of 40]
          show_nat.simps [of 4])
  have a: "outcome (request offline 5000 fresh_client ''pages'' no_options)
     = Inl (ApiError \<lparr>statusCode = 0, code = JStr ''NETWORK_ERROR'',
                      message = Message ''fetch failed'', details = JUndefined\<rparr>)"
    by (simp add: outcome_request offline_def network_error_def)
  have b: "outcome (request (answering ?r) 5000 fresh_client ''pages'' no_options)
     = Inl (ApiError \<lparr>statusCode = 404, code = JStr ''UNKNOWN_ERROR'',
                      message = Message ''HTTP 404: Not Found'', details = JUndefined\<rparr>)"
    by (simp add: outcome_request answering_def http_error_def js_or_def s404)
  from request_retries_nothing [of offline 5000 fresh_client "''pages''" no_options]
    request_retries_nothing [of "answering ?r" 5000 fresh_client "''pages''" no_options]
    a b
  show ?thesis by (simp add: offline_def answering_def)
qed

text \<open>
  C7, as the claim states its last part: when less than 1000 ms have passed since the
  previous request to the endpoint, the tracker entry is left unchanged. Three
  requests to one endpoint at 5000, 5900 and 6800: the second leaves the entry at
  5000, so the third, 900 ms after the second, sets it to 6800.
\<close>

theorem tracker_changed_within_1000ms_of_previous_request:
  "rateLimitTracker
     (request_sequence offline fresh_client
        [(5000, ''pages'', no_options), (5900, ''pages'', no_options)]) ''pages'' = Some 5000
 \<and> rateLimitTracker
     (request_sequence offline fresh_client
        [(5000, ''pages'', no_options), (5900, ''pages'', no_options),
         (6800, ''pages'', no_options)]) ''pages'' = Some 6800
 \<and> (6800::int) - 5900 < 1000"
  by (simp add: client_request checkRateLimit_def fresh_client_def)

text \<open>
  C7, amended. A call of \<open>request\<close> leaves \<open>baseUrl\<close>, \<open>siteId\<close> and \<open>apiKey\<close> as
  they were and changes no tracker entry but the one of the requested endpoint. When
  less than 1000 ms have passed since the time the tracker holds for that endpoint
  (0 when it holds none), the tracker is left unchanged; otherwise the entry becomes
  the time of this request.
\<close>

theorem request_frame:
  "baseUrl (client (request P now c endpoint options)) = baseUrl c
 \<and> siteId (client (request P now c endpoint options)) = siteId c
 \<and> apiKey (client (request P now c endpoint options)) = apiKey c
 \<and> (\<forall>e. e \<noteq> endpoint \<longrightarrow>
        rateLimitTracker (client (request P now c endpoint options)) e = rateLimitTracker c e)
 \<and> (now - (case rateLimitTracker c endpoint of Some t \<Rightarrow> t | None \<Rightarrow> 0) < 1000 \<longrightarrow>
        rateLimitTracker (client (request P now c endpoint options)) = rateLimitTracker c)
 \<and> (\<not> now - (case rateLimitTracker c endpoint of Some t \<Rightarrow> t | None \<Rightarrow> 0) < 1000 \<longrightarrow>
        rateLimitTracker (client (request P now c endpoint options)) endpoint = Some now)"
  by (simp add: client_request checkRateLimit_def Let_def)

theorem request_frame_witness:
  "''search'' \<noteq> ''pages''
 \<and> (5900::int) - (case [''pages'' \<mapsto> (5000::int)] ''pages'' of
                     Some t \<Rightarrow> t | None \<Rightarrow> 0) < 1000
 \<and> rateLimitTracker
      (client (request offline 5900 (fresh_client\<lparr>rateLimitTracker := [''pages'' \<mapsto> 5000]\<rparr>)
         ''pages'' no_options)) = [''pages'' \<mapsto> 5000]
 \<and> \<not> (6000::int) - (case rateLimitTracker fresh_client ''pages'' of
                       Some t \<Rightarrow> t | None \<Rightarrow> 0) < 1000
 \<and> rateLimitTracker (client (request offline 6000 fresh_client ''pages'' no_options)) ''pages''
     = Some 6000
 \<and> rateLimitTracker (client (request offline 6000 fresh_client ''pages'' no_options)) ''search''
     = rateLimitTracker fresh_client ''search''"
  using request_frame [of offline 5900 "fresh_client\<lparr>rateLimitTracker := [''pages'' \<mapsto> 5000]\<rparr>"
                          "''pages''" no_options]
    request_frame [of offline 6000 fresh_client "''pages''" no_options]
  by (simp add: fresh_client_def)

section \<open>Properties of the search service\<close>

text \<open>
  C3. When the API call of \<open>search\<close> throws or returns a response that is not
  successful, \<open>search\<close> returns (it has no other way out) a response with
  \<open>success = false\<close>, no items, \<open>total = 0\<close>, \<open>page = 1\<close> and \<open>limit\<close> equal to
  \<open>query.limit || 10\<close>.
\<close>

theorem search_failure_fallback:
  assumes "case outcome (search_call P now c q) of
             Inl e \<Rightarrow> True
           | Inr response \<Rightarrow> \<not> response_success response"
  shows "success (outcome (search P now c q)) = False
       \<and> items (data (outcome (search P now c q))) = []
       \<and> total (data (outcome (search P now c q))) = JNum (Num 0)
       \<and> page (data (outcome (search P now c q))) = JNum (Num 1)
       \<and> data_limit (data (outcome (search P now c q))) = JNum (Num (num_or (limit q) 10))"
  using assms
  by (cases "outcome (search_call P now c q)")
     (simp_all add: search_def Let_def search_fallback_def)

theorem search_failure_fallback_witness:
  "(case outcome (search_call offline 5000 fresh_client
        \<lparr>query = JStr ''tax'', limit = Some (Num 0), offset = None, filters = None\<rparr>) of
      Inl e \<Rightarrow> True
    | Inr response \<Rightarrow> \<not> response_success response)
 \<and> outcome (search offline 5000 fresh_client
        \<lparr>query = JStr ''tax'', limit = Some (Num 0), offset = None, filters = None\<rparr>)
     = \<lparr>data = \<lparr>items = [], total = JNum (Num 0), page = JNum (Num 1),
                 data_limit = JNum (Num 10)\<rparr>,
         success = False, message_text = Some ''Search failed''\<rparr>
 \<and> (case outcome (search_call
        (answering \<lparr>ok = True, status = 200, statusText = ''OK'',
                     json = Inr (JObj [(''success'', JBool False), (''data'', JNull)])\<rparr>)
        5000 fresh_client
        \<lparr>query = JStr ''tax'', limit = Some (Num 3), offset = None, filters = None\<rparr>) of
      Inl e \<Rightarrow> True
    | Inr response \<Rightarrow> \<not> response_success response)
 \<and> data_limit (data (outcome (search
        (answering \<lparr>ok = True, status = 200, statusText = ''OK'',
                     json = Inr (JObj [(''success'', JBool False), (''data'', JNull)])\<rparr>)
        5000 fresh_client
        \<lparr>query = JStr ''tax'', limit = Some (Num 3), offset = None, filters = None\<rparr>)))
     = JNum (Num 3)"
proof -
  let ?q0 = "\<lparr>query = JStr ''tax'', limit = Some (Num 0), offset = None, filters = None\<rparr>"
  let ?q3 = "\<lparr>query = JStr ''tax'', limit = Some (Num 3), offset = None, filters = None\<rparr>"
  let ?P = "answering \<lparr>ok = True, status = 200, statusText = ''OK'',
                     json = Inr (JObj [(''success'', JBool False), (''data'', JNull)])\<rparr>"
  have a: "outcome (search_call offline 5000 fresh_client ?q0)
             = Inl (ApiError (network_error (Failure ''fetch failed'')))"
    by (simp add: search_call_def get_def search_params_def Let_def outcome_request offline_def)
  have b: "outcome (search_call ?P 5000 fresh_client ?q3)
             = Inr (JObj [(''success'', JBool False), (''data'', JNull)])"
    by (simp add: search_call_def get_def search_params_def Let_def outcome_request
          answering_def to_response_def show_int_def show_nat.simps [of 3])
  have ha: "case outcome (search_call offline 5000 fresh_client ?q0) of
              Inl e \<Rightarrow> True | Inr response \<Rightarrow> \<not> response_success response"
    by (simp add: a)
  have hb: "case outcome (search_call ?P 5000 fresh_client ?q3) of
              Inl e \<Rightarrow> True | Inr response \<Rightarrow> \<not> response_success response"
    by (simp add: b response_success_def)
  have m: "outcome (search offline 5000 fresh_client ?q0)
     = \<lparr>data = \<lparr>items = [], total = JNum (Num 0), page = JNum (Num 1),
                 data_limit = JNum (Num 10)\<rparr>,
         success = False, message_text = Some ''Search failed''\<rparr>"
    by (simp add: search_def Let_def a search_fallback_def)
  from search_failure_fallback [OF hb] have "data_limit (data (outcome (search ?P 5000 fresh_client ?q3)))
     = JNum (Num 3)"
    by simp
  with ha hb m show ?thesis by simp
qed

text \<open>
  C4, as the claim states it: the fallback data is the filtered static list truncated
  to at most \<open>limit\<close> entries. With the API unreachable, the term \<open>e\<close> and
  \<open>limit = -1\<close> the result has four entries.
\<close>

theorem getSuggestions_negative_limit:
  "map s_id (data (outcome (getSuggestions offline 5000 fresh_client ''e'' (Some (Num (- 1))))))
     = [Some ''1'', Some ''2'', Some ''3'', Some ''5'']
 \<and> \<not> int (length (data (outcome
         (getSuggestions offline 5000 fresh_client ''e'' (Some (Num (- 1))))))) \<le> - 1"
proof -
  have a: "outcome (suggest_call offline 5000 fresh_client ''e'' (Num (- 1)))
             = Inl (ApiError (network_error (Failure ''fetch failed'')))"
    by (simp add: suggest_call_def get_def Let_def outcome_request offline_def show_int_def
          show_nat.simps [of "Suc 0"])
  have f: "filter (\<lambda>s. sublist (toLowerCase offline ''e'') (toLowerCase offline (snd s)))
             staticSuggestions
           = [(''1'', ''steuerberater''), (''2'', ''beratung''), (''3'', CHR 0xF6 # ''sterreich''),
              (''5'', ''unternehmen''), (''6'', ''service'')]"
    by (simp add: staticSuggestions_def offline_def sublist_Cons_right)
  have "map s_id (data (outcome (getSuggestions offline 5000 fresh_client ''e'' (Some (Num (- 1))))))
     = [Some ''1'', Some ''2'', Some ''3'', Some ''5'']"
    by (simp add: getSuggestions_def Let_def a getStaticSuggestions_def f trim_def is_space_def
          term_suggestion_def)
  then show ?thesis
    by simp
qed

text \<open>
  C4, amended. For a term that is empty or blank \<open>getSuggestions\<close> returns
  \<open>success = true\<close> with no data and calls nothing. For any other term, when the API
  call throws or returns data that is empty or no array, it returns \<open>success = true\<close>
  with the entries of the static list whose text contains the term (both in lower
  case), cut by \<open>slice(0, limit)\<close>: for \<open>limit \<ge> 0\<close> these are the first \<open>limit\<close>
  of them, so at most \<open>limit\<close>.
\<close>

theorem getSuggestions_fallback:
  fixes P :: platform and "term" :: string and limit_arg :: "number option"
  defines "lim \<equiv> (case limit_arg of None \<Rightarrow> Num 5 | Some l \<Rightarrow> l)"
  defines "matching \<equiv>
     filter (\<lambda>s. sublist (toLowerCase P term) (toLowerCase P (snd s))) staticSuggestions"
  shows "(trim term = [] \<longrightarrow>
            success (outcome (getSuggestions P now c term limit_arg))
          \<and> data (outcome (getSuggestions P now c term limit_arg)) = []
          \<and> fetches (getSuggestions P now c term limit_arg) = [])
       \<and> (trim term \<noteq> []
          \<and> (case outcome (suggest_call P now c term lim) of
                Inl e \<Rightarrow> True
              | Inr response \<Rightarrow>
                  (case response_data response of JArr xs \<Rightarrow> xs = [] | _ \<Rightarrow> True))
          \<longrightarrow>
            success (outcome (getSuggestions P now c term limit_arg))
          \<and> data (outcome (getSuggestions P now c term limit_arg))
              = map term_suggestion (js_slice0 matching lim)
          \<and> (\<forall>n. lim = Num n \<and> 0 \<le> n \<longrightarrow>
                data (outcome (getSuggestions P now c term limit_arg))
                  = map term_suggestion (take (nat n) matching)
              \<and> length (data (outcome (getSuggestions P now c term limit_arg))) \<le> nat n))"
proof (intro conjI impI)
  assume "trim term = []"
  then show "success (outcome (getSuggestions P now c term limit_arg))"
    and "data (outcome (getSuggestions P now c term limit_arg)) = []"
    and "fetches (getSuggestions P now c term limit_arg) = []"
    by (simp_all add: getSuggestions_def Let_def)
next
  assume h: "trim term \<noteq> []
          \<and> (case outcome (suggest_call P now c term lim) of
                Inl e \<Rightarrow> True
              | Inr response \<Rightarrow>
                  (case response_data response of JArr xs \<Rightarrow> xs = [] | _ \<Rightarrow> True))"
  have none: "api_suggestions response = None"
    if "outcome (suggest_call P now c term lim) = Inr response" for response
    using h that by (auto simp: api_suggestions_def split: jsval.splits)
  have out: "success (outcome (getSuggestions P now c term limit_arg))
           \<and> data (outcome (getSuggestions P now c term limit_arg))
               = getStaticSuggestions P term lim"
  proof (cases "outcome (suggest_call P now c term lim)")
    case (Inl e)
    with h show ?thesis
      by (simp add: getSuggestions_def Let_def lim_def)
  next
    case (Inr response)
    with h none [OF Inr] show ?thesis
      by (simp add: getSuggestions_def Let_def lim_def)
  qed
  then show "success (outcome (getSuggestions P now c term limit_arg))" by simp
  from out show d: "data (outcome (getSuggestions P now c term limit_arg))
              = map term_suggestion (js_slice0 matching lim)"
    by (simp add: getStaticSuggestions_def matching_def)
  show "\<forall>n. lim = Num n \<and> 0 \<le> n \<longrightarrow>
                data (outcome (getSuggestions P now c term limit_arg))
                  = map term_suggestion (take (nat n) matching)
              \<and> length (data (outcome (getSuggestions P now c term limit_arg))) \<le> nat n"
    using d by auto
qed

theorem getSuggestions_fallback_witness:
  "trim ''  '' = []
 \<and> data (outcome (getSuggestions offline 5000 fresh_client ''  '' None)) = []
 \<and> fetches (getSuggestions offline 5000 fresh_client ''  '' None) = []
 \<and> trim ''e'' \<noteq> []
 \<and> (case outcome (suggest_call offline 5000 fresh_client ''e'' (Num 2)) of
        Inl e \<Rightarrow> True
      | Inr response \<Rightarrow> (case response_data response of JArr xs \<Rightarrow> xs = [] | _ \<Rightarrow> True))
 \<and> (0::int) \<le> 2
 \<and> data (outcome (getSuggestions offline 5000 fresh_client ''e'' (Some (Num 2))))
     = [term_suggestion (''1'', ''steuerberater''), term_suggestion (''2'', ''beratung'')]
 \<and> length (data (outcome (getSuggestions offline 5000 fresh_client ''e'' (Some (Num 2)))))
     \<le> nat 2"
proof -
  have blank: "trim ''  '' = []" and e: "trim ''e'' \<noteq> []"
    by (simp_all add: trim_def is_space_def)
  have a: "outcome (suggest_call offline 5000 fresh_client ''e'' (Num 2))
             = Inl (ApiError (network_error (Failure ''fetch failed'')))"
    by (simp add: suggest_call_def get_def Let_def outcome_request offline_def show_int_def
          show_nat.simps [of 2])
  have f: "filter (\<lambda>s. sublist (toLowerCase offline ''e'') (toLowerCase offline (snd s)))
             staticSuggestions
           = [(''1'', ''steuerberater''), (''2'', ''beratung''), (''3'', CHR 0xF6 # ''sterreich''),
              (''5'', ''unternehmen''), (''6'', ''service'')]"
    by (simp add: staticSuggestions_def offline_def sublist_Cons_right)
  from getSuggestions_fallback [of "''  ''" offline 5000 fresh_client None] blank
  have b: "data (outcome (getSuggestions offline 5000 fresh_client ''  '' None)) = []
         \<and> fetches (getSuggestions offline 5000 fresh_client ''  '' None) = []"
    by blast
  from getSuggestions_fallback [of "''e''" offline 5000 fresh_client "Some (Num 2)"] e a
  have c: "data (outcome (getSuggestions offline 5000 fresh_client ''e'' (Some (Num 2))))
     = [term_suggestion (''1'', ''steuerberater''), term_suggestion (''2'', ''beratung'')]
   \<and> length (data (outcome (getSuggestions offline 5000 fresh_client ''e'' (Some (Num 2)))))
     \<le> nat 2"
    by (simp add: f)
  from blank e a b c show ?thesis by simp
qed

text \<open>
  The successful paths on a response as the backend sends it: one search result is
  transformed, and suggestions delivered as \<open>{data: [...]}\<close> are taken over.
\<close>

lemma search_success_example:
  "outcome (search
     (answering \<lparr>ok = True, status = 200, statusText = ''OK'',
        json = Inr (JObj [(''results'',
                             JArr [JObj [(''id'', JNum (Num 7)), (''title'', JStr ''T''),
                                         (''content'', JStr ''a b c''),
                                         (''doc_type'', JStr ''content_element''),
                                         (''keywords'', JStr ''x,y'')]]),
                          (''total'', JNum (Num 1)), (''page'', JNum (Num 1)),
                          (''size'', JNum (Num 10)), (''total_pages'', JNum (Num 1))])\<rparr>)
     5000 fresh_client
     \<lparr>query = JStr ''news'', limit = Some (Num 10), offset = None, filters = None\<rparr>)
   = \<lparr>data = \<lparr>items =
                [JObj [(''id'', JStr ''7''), (''type'', JStr ''page''), (''title'', JStr ''T''),
                       (''excerpt'', JStr ''a b c''), (''url'', JStr ''#''),
                       (''score'', JUndefined), (''publishedAt'', JUndefined),
                       (''category'', JUndefined), (''tags'', JArr [JStr ''x'', JStr ''y'']),
                       (''metadata'',
                          JObj [(''contentType'', JStr ''content_element''),
                                (''wordCount'', JNum (Num 3)), (''readTime'', JNum (Num 1))]),
                       (''highlight'', JUndefined)]],
               total = JNum (Num 1), page = JNum (Num 1), data_limit = JNum (Num 10)\<rparr>,
       success = True, message_text = Some ''Found 1 results''\<rparr>"
  by code_simp

lemma getSuggestions_api_example:
  "outcome (getSuggestions
     (answering \<lparr>ok = True, status = 200, statusText = ''OK'',
        json = Inr (JObj [(''success'', JBool True),
                          (''data'', JArr [JObj [(''id'', JNum (Num 4)), (''text'', JStr ''tax'')],
                                           JStr ''taxes''])])\<rparr>)
     5000 fresh_client ''ta'' None)
   = \<lparr>data = [\<lparr>s_id = Some ''4'', s_text = JStr ''tax'', s_type = JStr ''term'',
                 s_url = JUndefined\<rparr>,
                \<lparr>s_id = Some ''0.1'', s_text = JStr ''taxes'', s_type = JStr ''term'',
                 s_url = JUndefined\<rparr>],
       success = True, message_text = Some ''API suggestions loaded successfully''\<rparr>"
  by code_simp

section \<open>Properties of the proxy routes\<close>





















text \<open>
  Beyond the exact range the model declines: for \<open>limit=3\<close> and
  \<open>page=3002399751580332\<close> the product \<open>(page - 1) * limit\<close> is \<open>2^53 + 1\<close>.
\<close>

lemma search_route_beyond_exact_range:
  "search_route_query [(''q'', ''a''), (''limit'', ''3''), (''page'', ''3002399751580332'')]
     = Inexact
 \<and> GET_search offline 5000 fresh_client
       [(''q'', ''a''), (''limit'', ''3''), (''page'', ''3002399751580332'')] = None"
proof -
  have p: "parseInt ''3002399751580332'' = Some (Num 3002399751580332)"
    by (simp add: parseInt_def Let_def is_space_def radix_digit_def digit_value_def
          digits_value_def exact_range_def)
  have l: "parseInt ''3'' = Some (Num 3)"
    by (simp add: parseInt_def Let_def is_space_def radix_digit_def digit_value_def
          digits_value_def exact_range_def)
  have t: "trim ''a'' = ''a''" by (simp add: trim_def is_space_def)
  have s: "search_route_query
             [(''q'', ''a''), (''limit'', ''3''), (''page'', ''3002399751580332'')] = Inexact"
    by (simp add: search_route_query_def Let_def param_or_def p l t exact_range_def)
  then show ?thesis by (simp add: GET_search_def)
qed

section \<open>Properties of the content reference resolver\<close>

lemma some_resolved_True:
  "i < length xs \<Longrightarrow> xs ! i = JObj kvs \<Longrightarrow> truthy (field kvs ''title'') \<Longrightarrow>
   (\<forall>j<i. xs ! j \<noteq> JNull) \<Longrightarrow> some_resolved xs = Some True"
proof (induction xs arbitrary: i)
  case Nil
  then show ?case by simp
next
  case (Cons x xs)
  show ?case
  proof (cases i)
    case 0
    with Cons.prems show ?thesis by simp
  next
    case (Suc k)
    from Cons.prems(4) Suc have x: "x \<noteq> JNull" by auto
    from Cons.prems(4) Suc have "\<forall>j<k. xs ! j \<noteq> JNull" by auto
    with Cons.prems(1-3) Suc have "some_resolved xs = Some True"
      by (intro Cons.IH [of k]) simp_all
    with x show ?thesis by (cases x) simp_all
  qed
qed

lemma some_resolved_False:
  "JNull \<notin> set xs \<Longrightarrow> (\<forall>kvs. JObj kvs \<in> set xs \<longrightarrow> \<not> truthy (field kvs ''title'')) \<Longrightarrow>
   some_resolved xs = Some False"
  by (induction xs rule: some_resolved.induct) auto

lemma findReferenceData_none:
  "(\<forall>p\<in>set ps. \<forall>zs. field props p \<noteq> JArr zs) \<Longrightarrow> findReferenceData props ps = []"
  by (induction ps) (auto split: jsval.splits)

lemma findReferenceData_first:
  "(\<forall>p'\<in>set pre. \<forall>zs. field props p' \<noteq> JArr zs) \<Longrightarrow> field props p = JArr ys \<Longrightarrow>
   findReferenceData props (pre @ p # post) = ys"
  by (induction pre) (auto split: jsval.splits)

lemma pages_items_array:
  "response_success response \<Longrightarrow> property (response_data response) ''items'' = Some (JArr ys) \<Longrightarrow>
   pages_items P response = Inr (JArr ys)"
  by (cases "ys = []") (simp_all add: pages_items_def)

lemma pages_items_unsuccessful:
  "\<not> response_success response \<Longrightarrow> pages_items P response = Inr (JArr [])"
  by (simp add: pages_items_def)


lemma resolve_resolved:
  assumes "some_resolved (findReferenceData props referencePatterns) = Some True"
  shows "resolveContentReferences P now1 now2 c props content_type limit_arg =
           \<lparr>client = c, fetches = [],
            outcome = Inr (JArr (js_slice0 (findReferenceData props referencePatterns)
                                   (Num (num_or limit_arg 10))))\<rparr>"
proof -
  from assms have "findReferenceData props referencePatterns \<noteq> []" by auto
  with assms show ?thesis by (simp add: resolveContentReferences_def Let_def)
qed

lemma resolve_unresolved:
  assumes "some_resolved (findReferenceData props referencePatterns) = Some False"
  shows "resolveContentReferences P now1 now2 c props content_type limit_arg =
     (let searchResponse =
            search P now1 c
              \<lparr>query = searchQuery props content_type, limit = Some (Num (num_or limit_arg 10)),
               offset = None, filters = None\<rparr>
      in if success (outcome searchResponse)
            \<and> length (items (data (outcome searchResponse))) > 0
         then \<lparr>client = client searchResponse, fetches = fetches searchResponse,
               outcome = Inr (JArr (items (data (outcome searchResponse))))\<rparr>
         else
           (let r = getPages P now2 (client searchResponse)
                      \<lparr>pages_limit = Some (Num (num_or limit_arg 10)), pages_offset = None,
                       pages_status = Some ''published'', pages_category = None,
                       pages_tag = None, pages_search = None\<rparr>
            in \<lparr>client = client r,
                fetches = fetches searchResponse @ fetches r,
                outcome = (case outcome r of
                             Inl e \<Rightarrow> Inl e
                           | Inr response \<Rightarrow> pages_items P response)\<rparr>))"
  using assms by (simp add: resolveContentReferences_def Let_def)

text \<open>
  C1, as the claim states it: if the array found contains an object with a \<open>title\<close>
  field, the first entries of that array are returned with no API call. For
  \<open>data = {items: [{title: ''}]}\<close> the array holds an object with a \<open>title\<close> field,
  yet the search and the pages service are called and the pages are returned.
\<close>

theorem resolveContentReferences_empty_title:
  "findReferenceData [(''items'', JArr [JObj [(''title'', JStr [])]])] referencePatterns
     = [JObj [(''title'', JStr [])]]
 \<and> map_of [(''title'', JStr [])] ''title'' = Some (JStr [])
 \<and> map fst (fetches (resolveContentReferences
       (answering \<lparr>ok = True, status = 200, statusText = ''OK'',
                    json = Inr (JArr [JObj [(''id'', JNum (Num 1)), (''title'', JStr ''P'')]])\<rparr>)
       5000 5001 fresh_client [(''items'', JArr [JObj [(''title'', JStr [])]])] ''teaser'' None))
     = [''https://cms.example/api/search/sites/site1?q=content&size=10'',
        ''https://cms.example/api/public/site1/pages?limit=10&status=published'']
 \<and> outcome (resolveContentReferences
       (answering \<lparr>ok = True, status = 200, statusText = ''OK'',
                    json = Inr (JArr [JObj [(''id'', JNum (Num 1)), (''title'', JStr ''P'')]])\<rparr>)
       5000 5001 fresh_client [(''items'', JArr [JObj [(''title'', JStr [])]])] ''teaser'' None)
     = Inr (JArr [JObj [(''id'', JNum (Num 1)), (''title'', JStr ''P'')]])"
proof -
  have a: "findReferenceData [(''items'', JArr [JObj [(''title'', JStr [])]])] referencePatterns
             = [JObj [(''title'', JStr [])]]"
    by (simp add: referencePatterns_def field_def)
  have b: "map_of [(''title'', JStr [])] ''title'' = Some (JStr [])"
    by simp
  have c: "map fst (fetches (resolveContentReferences
       (answering \<lparr>ok = True, status = 200, statusText = ''OK'',
                    json = Inr (JArr [JObj [(''id'', JNum (Num 1)), (''title'', JStr ''P'')]])\<rparr>)
       5000 5001 fresh_client [(''items'', JArr [JObj [(''title'', JStr [])]])] ''teaser'' None))
     = [''https://cms.example/api/search/sites/site1?q=content&size=10'',
        ''https://cms.example/api/public/site1/pages?limit=10&status=published'']"
    by code_simp
  have d: "outcome (resolveContentReferences
       (answering \<lparr>ok = True, status = 200, statusText = ''OK'',
                    json = Inr (JArr [JObj [(''id'', JNum (Num 1)), (''title'', JStr ''P'')]])\<rparr>)
       5000 5001 fresh_client [(''items'', JArr [JObj [(''title'', JStr [])]])] ''teaser'' None)
     = Inr (JArr [JObj [(''id'', JNum (Num 1)), (''title'', JStr ''P'')]])"
    by code_simp
  show ?thesis
    by (intro conjI) (rule a b c d)+
qed

text \<open>
  C1, amended. \<open>resolveContentReferences(data, contentType, limit)\<close> takes the array
  \<open>xs\<close> of the first field, in the order of the fixed list, whose value is an array
  (\<open>[]\<close> when there is none). If \<open>xs\<close> holds an object whose \<open>title\<close> is truthy, with
  no \<open>null\<close> before it, the result is \<open>xs.slice(0, limit || 10)\<close> with no API call;
  these are the first \<open>limit || 10\<close> entries when that number is not negative. If
  \<open>xs\<close> holds no \<open>null\<close> and no object with a truthy \<open>title\<close>, a search is made with
  limit \<open>limit || 10\<close> and the query \<open>news\<close>, \<open>article\<close> or \<open>post\<close> when the content
  type contains that word (in this order), else a truthy \<open>data.search_term\<close>, else a
  truthy \<open>data.category\<close>, else \<open>content\<close>. A successful search with at least one
  item gives its items. Otherwise the latest published pages are requested: an error
  of that request is rethrown, an unsuccessful response gives the empty list, and a
  successful response whose items are an array gives that array.
\<close>

theorem resolveContentReferences_heuristics:
  fixes P :: platform and now1 now2 :: int and c :: CognitorApiClient
    and props :: "(string \<times> jsval) list" and content_type :: string
    and limit_arg :: "number option"
  defines "xs \<equiv> findReferenceData props referencePatterns"
  defines "n \<equiv> num_or limit_arg 10"
  defines "R \<equiv> resolveContentReferences P now1 now2 c props content_type limit_arg"
  defines "S \<equiv> search P now1 c
                 \<lparr>query = searchQuery props content_type, limit = Some (Num n),
                  offset = None, filters = None\<rparr>"
  defines "G \<equiv> getPages P now2 (client S)
                 \<lparr>pages_limit = Some (Num n), pages_offset = None,
                  pages_status = Some ''published'', pages_category = None,
                  pages_tag = None, pages_search = None\<rparr>"
  shows "(\<forall>pre p post ys.
            referencePatterns = pre @ p # post \<and> field props p = JArr ys
            \<and> (\<forall>p'\<in>set pre. \<forall>zs. field props p' \<noteq> JArr zs) \<longrightarrow> xs = ys)
       \<and> ((\<forall>p\<in>set referencePatterns. \<forall>zs. field props p \<noteq> JArr zs) \<longrightarrow> xs = [])
       \<and> ((\<exists>i<length xs. (\<exists>kvs. xs ! i = JObj kvs \<and> truthy (field kvs ''title''))
                         \<and> (\<forall>j<i. xs ! j \<noteq> JNull)) \<longrightarrow>
              outcome R = Inr (JArr (js_slice0 xs (Num n)))
            \<and> fetches R = []
            \<and> (0 \<le> n \<longrightarrow> outcome R = Inr (JArr (take (nat n) xs))))
       \<and> (JNull \<notin> set xs \<and> (\<forall>kvs. JObj kvs \<in> set xs \<longrightarrow> \<not> truthy (field kvs ''title'')) \<longrightarrow>
              (success (outcome S) \<and> items (data (outcome S)) \<noteq> [] \<longrightarrow>
                 outcome R = Inr (JArr (items (data (outcome S)))) \<and> fetches R = fetches S)
            \<and> (\<not> (success (outcome S) \<and> items (data (outcome S)) \<noteq> []) \<longrightarrow>
                 fetches R = fetches S @ fetches G
               \<and> (\<forall>e. outcome G = Inl e \<longrightarrow> outcome R = Inl e)
               \<and> (\<forall>response. outcome G = Inr response \<longrightarrow>
                     outcome R = pages_items P response
                   \<and> (\<not> response_success response \<longrightarrow> outcome R = Inr (JArr []))
                   \<and> (\<forall>ys. response_success response
                            \<and> property (response_data response) ''items'' = Some (JArr ys) \<longrightarrow>
                            outcome R = Inr (JArr ys)))))
       \<and> (sublist ''news'' content_type \<longrightarrow> searchQuery props content_type = JStr ''news'')
       \<and> (\<not> sublist ''news'' content_type \<and> sublist ''article'' content_type \<longrightarrow>
              searchQuery props content_type = JStr ''article'')
       \<and> (\<not> sublist ''news'' content_type \<and> \<not> sublist ''article'' content_type
            \<and> sublist ''post'' content_type \<longrightarrow>
              searchQuery props content_type = JStr ''post'')
       \<and> (\<not> sublist ''news'' content_type \<and> \<not> sublist ''article'' content_type
            \<and> \<not> sublist ''post'' content_type \<longrightarrow>
              searchQuery props content_type =
                (if truthy (field props ''search_term'') then field props ''search_term''
                 else if truthy (field props ''category'') then field props ''category''
                 else JStr ''content''))"
proof -
  have p1: "\<forall>pre p post ys.
            referencePatterns = pre @ p # post \<and> field props p = JArr ys
            \<and> (\<forall>p'\<in>set pre. \<forall>zs. field props p' \<noteq> JArr zs) \<longrightarrow> xs = ys"
    unfolding xs_def using findReferenceData_first [of _ props] by metis
  have p2: "(\<forall>p\<in>set referencePatterns. \<forall>zs. field props p \<noteq> JArr zs) \<longrightarrow> xs = []"
    unfolding xs_def using findReferenceData_none [of referencePatterns props] by blast
  have p3: "(\<exists>i<length xs. (\<exists>kvs. xs ! i = JObj kvs \<and> truthy (field kvs ''title''))
                         \<and> (\<forall>j<i. xs ! j \<noteq> JNull)) \<longrightarrow>
              outcome R = Inr (JArr (js_slice0 xs (Num n)))
            \<and> fetches R = []
            \<and> (0 \<le> n \<longrightarrow> outcome R = Inr (JArr (take (nat n) xs)))"
  proof
    assume "\<exists>i<length xs. (\<exists>kvs. xs ! i = JObj kvs \<and> truthy (field kvs ''title''))
                         \<and> (\<forall>j<i. xs ! j \<noteq> JNull)"
    then obtain i kvs where "i < length xs" "xs ! i = JObj kvs" "truthy (field kvs ''title'')"
      "\<forall>j<i. xs ! j \<noteq> JNull"
      by blast
    then have "some_resolved xs = Some True" by (rule some_resolved_True)
    then have "R = \<lparr>client = c, fetches = [],
                    outcome = Inr (JArr (js_slice0 xs (Num n)))\<rparr>"
      unfolding R_def xs_def n_def by (rule resolve_resolved)
    then show "outcome R = Inr (JArr (js_slice0 xs (Num n)))
            \<and> fetches R = []
            \<and> (0 \<le> n \<longrightarrow> outcome R = Inr (JArr (take (nat n) xs)))"
      by simp
  qed
  have p4: "JNull \<notin> set xs \<and> (\<forall>kvs. JObj kvs \<in> set xs \<longrightarrow> \<not> truthy (field kvs ''title'')) \<longrightarrow>
              (success (outcome S) \<and> items (data (outcome S)) \<noteq> [] \<longrightarrow>
                 outcome R = Inr (JArr (items (data (outcome S)))) \<and> fetches R = fetches S)
            \<and> (\<not> (success (outcome S) \<and> items (data (outcome S)) \<noteq> []) \<longrightarrow>
                 fetches R = fetches S @ fetches G
               \<and> (\<forall>e. outcome G = Inl e \<longrightarrow> outcome R = Inl e)
               \<and> (\<forall>response. outcome G = Inr response \<longrightarrow>
                     outcome R = pages_items P response
                   \<and> (\<not> response_success response \<longrightarrow> outcome R = Inr (JArr []))
                   \<and> (\<forall>ys. response_success response
                            \<and> property (response_data response) ''items'' = Some (JArr ys) \<longrightarrow>
                            outcome R = Inr (JArr ys))))"
  proof
    assume "JNull \<notin> set xs \<and> (\<forall>kvs. JObj kvs \<in> set xs \<longrightarrow> \<not> truthy (field kvs ''title''))"
    then have "some_resolved xs = Some False" by (simp add: some_resolved_False)
    then have R: "R = (if success (outcome S) \<and> length (items (data (outcome S))) > 0
         then \<lparr>client = client S, fetches = fetches S,
               outcome = Inr (JArr (items (data (outcome S))))\<rparr>
         else \<lparr>client = client G, fetches = fetches S @ fetches G,
               outcome = (case outcome G of
                            Inl e \<Rightarrow> Inl e
                          | Inr response \<Rightarrow> pages_items P response)\<rparr>)"
      unfolding R_def xs_def n_def S_def G_def
      by (simp add: resolve_unresolved Let_def)
    show "(success (outcome S) \<and> items (data (outcome S)) \<noteq> [] \<longrightarrow>
                 outcome R = Inr (JArr (items (data (outcome S)))) \<and> fetches R = fetches S)
            \<and> (\<not> (success (outcome S) \<and> items (data (outcome S)) \<noteq> []) \<longrightarrow>
                 fetches R = fetches S @ fetches G
               \<and> (\<forall>e. outcome G = Inl e \<longrightarrow> outcome R = Inl e)
               \<and> (\<forall>response. outcome G = Inr response \<longrightarrow>
                     outcome R = pages_items P response
                   \<and> (\<not> response_success response \<longrightarrow> outcome R = Inr (JArr []))
                   \<and> (\<forall>ys. response_success response
                            \<and> property (response_data response) ''items'' = Some (JArr ys) \<longrightarrow>
                            outcome R = Inr (JArr ys))))"
    proof (cases "success (outcome S) \<and> items (data (outcome S)) \<noteq> []")
      case True
      then show ?thesis by (simp add: R)
    next
      case False
      then have False': "\<not> (success (outcome S) \<and> 0 < length (items (data (outcome S))))"
        by simp
      have R': "R = \<lparr>client = client G, fetches = fetches S @ fetches G,
               outcome = (case outcome G of
                            Inl e \<Rightarrow> Inl e
                          | Inr response \<Rightarrow> pages_items P response)\<rparr>"
        using False by (simp only: R if_not_P [OF False'])
      have y: "fetches R = fetches S @ fetches G
               \<and> (\<forall>e. outcome G = Inl e \<longrightarrow> outcome R = Inl e)
               \<and> (\<forall>response. outcome G = Inr response \<longrightarrow>
                     outcome R = pages_items P response
                   \<and> (\<not> response_success response \<longrightarrow> outcome R = Inr (JArr []))
                   \<and> (\<forall>ys. response_success response
                            \<and> property (response_data response) ''items'' = Some (JArr ys) \<longrightarrow>
                            outcome R = Inr (JArr ys)))"
        by (simp add: R' pages_items_array pages_items_unsuccessful)
      from False y show ?thesis by blast
    qed
  qed
  have q1: "sublist ''news'' content_type \<longrightarrow> searchQuery props content_type = JStr ''news''"
    by (simp add: searchQuery_def)
  have q2: "\<not> sublist ''news'' content_type \<and> sublist ''article'' content_type \<longrightarrow>
              searchQuery props content_type = JStr ''article''"
    by (simp add: searchQuery_def)
  have q3: "\<not> sublist ''news'' content_type \<and> \<not> sublist ''article'' content_type
            \<and> sublist ''post'' content_type \<longrightarrow>
              searchQuery props content_type = JStr ''post''"
    by (simp add: searchQuery_def)
  have q4: "\<not> sublist ''news'' content_type \<and> \<not> sublist ''article'' content_type
            \<and> \<not> sublist ''post'' content_type \<longrightarrow>
              searchQuery props content_type =
                (if truthy (field props ''search_term'') then field props ''search_term''
                 else if truthy (field props ''category'') then field props ''category''
                 else JStr ''content'')"
    by (simp add: searchQuery_def)
  show ?thesis
    by (intro conjI) (rule p1 p2 p3 p4 q1 q2 q3 q4)+
qed

theorem resolveContentReferences_heuristics_witness:
  "findReferenceData [(''refs'', JNum (Num 3)),
                      (''items'', JArr [JNum (Num 1), JObj [(''title'', JStr ''A'')], JNull])]
     referencePatterns = [JNum (Num 1), JObj [(''title'', JStr ''A'')], JNull]
 \<and> outcome (resolveContentReferences offline 5000 5001 fresh_client
       [(''refs'', JNum (Num 3)),
        (''items'', JArr [JNum (Num 1), JObj [(''title'', JStr ''A'')], JNull])]
       ''teaser'' (Some (Num 2)))
     = Inr (JArr [JNum (Num 1), JObj [(''title'', JStr ''A'')]])
 \<and> fetches (resolveContentReferences offline 5000 5001 fresh_client
       [(''refs'', JNum (Num 3)),
        (''items'', JArr [JNum (Num 1), JObj [(''title'', JStr ''A'')], JNull])]
       ''teaser'' (Some (Num 2))) = []
 \<and> findReferenceData [(''items'', JArr [JObj [(''title'', JStr [])]])] referencePatterns
     = [JObj [(''title'', JStr [])]]
 \<and> outcome (resolveContentReferences
       (answering \<lparr>ok = True, status = 200, statusText = ''OK'',
                    json = Inr (JArr [JObj [(''id'', JNum (Num 1)), (''title'', JStr ''P'')]])\<rparr>)
       5000 5001 fresh_client [(''items'', JArr [JObj [(''title'', JStr [])]])] ''teaser'' None)
     = Inr (JArr [JObj [(''id'', JNum (Num 1)), (''title'', JStr ''P'')]])
 \<and> sublist ''news'' ''latest-news''
 \<and> searchQuery [] ''latest-news'' = JStr ''news''"
proof -
  let ?props1 = "[(''refs'', JNum (Num 3)),
                  (''items'', JArr [JNum (Num 1), JObj [(''title'', JStr ''A'')], JNull])]"
  let ?props2 = "[(''items'', JArr [JObj [(''title'', JStr [])]])]"
  let ?page = "JObj [(''id'', JNum (Num 1)), (''title'', JStr ''P'')]"
  let ?P2 = "answering \<lparr>ok = True, status = 200, statusText = ''OK'', json = Inr (JArr [?page])\<rparr>"
  let ?S2 = "search ?P2 5000 fresh_client
               \<lparr>query = searchQuery ?props2 ''teaser'', limit = Some (Num (num_or None 10)),
                offset = None, filters = None\<rparr>"
  let ?G2 = "getPages ?P2 5001 (client ?S2)
               \<lparr>pages_limit = Some (Num (num_or None 10)), pages_offset = None,
                pages_status = Some ''published'', pages_category = None,
                pages_tag = None, pages_search = None\<rparr>"
  let ?resp = "to_response (JArr [?page])"
  note T1 = resolveContentReferences_heuristics
              [where P = offline and ?now1.0 = 5000 and ?now2.0 = 5001 and c = fresh_client
                 and props = ?props1 and content_type = "''teaser''"
                 and limit_arg = "Some (Num 2)"]
  note T2 = resolveContentReferences_heuristics
              [where P = ?P2 and ?now1.0 = 5000 and ?now2.0 = 5001 and c = fresh_client
                 and props = ?props2 and content_type = "''teaser''" and limit_arg = None]
  note T3 = resolveContentReferences_heuristics
              [where P = offline and ?now1.0 = 5000 and ?now2.0 = 5001 and c = fresh_client
                 and props = "[]" and content_type = "''latest-news''" and limit_arg = None]
  have x1: "findReferenceData ?props1 referencePatterns
              = [JNum (Num 1), JObj [(''title'', JStr ''A'')], JNull]"
    by (simp add: referencePatterns_def field_def)
  have x2: "findReferenceData ?props2 referencePatterns = [JObj [(''title'', JStr [])]]"
    by (simp add: referencePatterns_def field_def)
  have h1: "\<exists>i<length (findReferenceData ?props1 referencePatterns).
              (\<exists>kvs. findReferenceData ?props1 referencePatterns ! i = JObj kvs
                     \<and> truthy (field kvs ''title''))
            \<and> (\<forall>j<i. findReferenceData ?props1 referencePatterns ! j \<noteq> JNull)"
    unfolding x1 by (intro exI [of _ 1]) (simp add: field_def)
  note r1 = T1 [THEN conjunct2, THEN conjunct2, THEN conjunct1, THEN mp, OF h1]
  have o1: "outcome (resolveContentReferences offline 5000 5001 fresh_client ?props1
                       ''teaser'' (Some (Num 2)))
              = Inr (JArr [JNum (Num 1), JObj [(''title'', JStr ''A'')]])"
    using r1 [THEN conjunct1] by (simp add: x1)
  have f1: "fetches (resolveContentReferences offline 5000 5001 fresh_client ?props1
                       ''teaser'' (Some (Num 2))) = []"
    using r1 [THEN conjunct2, THEN conjunct1] .
  have h2: "JNull \<notin> set (findReferenceData ?props2 referencePatterns)
          \<and> (\<forall>kvs. JObj kvs \<in> set (findReferenceData ?props2 referencePatterns) \<longrightarrow>
                 \<not> truthy (field kvs ''title''))"
    unfolding x2 by (simp add: field_def)
  have s2: "success (outcome ?S2) = False"
    by code_simp
  then have n2: "\<not> (success (outcome ?S2) \<and> items (data (outcome ?S2)) \<noteq> [])"
    by simp
  have g2: "outcome ?G2 = Inr ?resp"
    by code_simp
  have i2: "response_success ?resp
          \<and> property (response_data ?resp) ''items'' = Some (JArr [?page])"
    by (simp add: to_response_def response_success_def response_data_def Let_def)
  note r2 = T2 [THEN conjunct2, THEN conjunct2, THEN conjunct2, THEN conjunct1, THEN mp, OF h2,
                THEN conjunct2, THEN mp, OF n2,
                THEN conjunct2, THEN conjunct2, THEN spec, THEN mp, OF g2,
                THEN conjunct2, THEN conjunct2, THEN spec, THEN mp, OF i2]
  have o2: "outcome (resolveContentReferences ?P2 5000 5001 fresh_client ?props2 ''teaser'' None)
              = Inr (JArr [?page])"
    by (rule r2)
  have n: "sublist ''news'' ''latest-news''"
    by (simp add: sublist_Cons_right)
  have q: "searchQuery [] ''latest-news'' = JStr ''news''"
    by (rule T3 [THEN conjunct2, THEN conjunct2, THEN conjunct2, THEN conjunct2,
                 THEN conjunct1, THEN mp, OF n])
  show ?thesis
    by (intro conjI) (rule x1 o1 f1 x2 o2 n q)+
qed

end
